theory Spec2Isabelle
  imports Complex_Main "HOL-Library.Sublist" "HOL-Library.AList"
begin

section \<open>Python values used by \<^verbatim>\<open>vispy/oogl\<close>\<close>

text \<open>
  Exceptions are values. Only the exception class is kept, not its message.
\<close>

datatype error =
    ValueError
  | RuntimeError
  | AssertionError
  | ZeroDivisionError
  | OverflowError
  | TypeError
  | KeyError
  | IndexError
  | AttributeError

subsection \<open>Python numbers\<close>

text \<open>
  A contrast limit is a Python number: an unbounded \<^verbatim>\<open>int\<close> or a \<^verbatim>\<open>float\<close>.
  The float type \<open>'f\<close> and the array buffer type \<open>'b\<close> are not fixed here: neither
  Python's floating point arithmetic nor numpy is part of the repository, so the
  operations \<^verbatim>\<open>convert_data\<close> performs on them are fields of a \<open>runtime\<close> record that
  every function below takes as its first argument. The numpy operations are applied
  to \<^verbatim>\<open>float16\<close> and \<^verbatim>\<open>float32\<close> arrays only. The in-place subtraction takes a limit
  given by the caller, and numpy raises when it cannot take it (an \<^verbatim>\<open>int\<close> too large for
  a float), so it may give an exception; the multiplications take a Python float and
  the other operations take no argument, and they return. The Python arithmetic on
  the limits raises as Python does.
\<close>

datatype 'f pynum = PyInt int | PyFloat 'f

record ('f, 'b) runtime =
  float_of_int :: "int \<Rightarrow> 'f option"  \<comment> \<open>\<^verbatim>\<open>float(i)\<close>; \<open>None\<close> is OverflowError\<close>
  float_sub :: "'f \<Rightarrow> 'f \<Rightarrow> 'f"  \<comment> \<open>\<^verbatim>\<open>x - y\<close>\<close>
  float_recip :: "'f \<Rightarrow> 'f"  \<comment> \<open>\<^verbatim>\<open>1.0 / x\<close> for \<^verbatim>\<open>x != 0.0\<close>\<close>
  float_eq0 :: "'f \<Rightarrow> bool"  \<comment> \<open>\<^verbatim>\<open>x == 0.0\<close>\<close>
  float_eq1 :: "'f \<Rightarrow> bool"  \<comment> \<open>\<^verbatim>\<open>x == 1.0\<close>\<close>
  np_astype :: "string \<Rightarrow> string \<Rightarrow> 'b \<Rightarrow> 'b"
    \<comment> \<open>the buffer of \<^verbatim>\<open>data.astype(t)\<close>, from the two dtype names\<close>
  np_isub :: "string \<Rightarrow> 'b \<Rightarrow> 'f pynum \<Rightarrow> error + 'b"
    \<comment> \<open>the buffer after \<^verbatim>\<open>data -= x\<close>, or the exception numpy raises\<close>
  np_imul :: "string \<Rightarrow> 'b \<Rightarrow> 'f \<Rightarrow> 'b"  \<comment> \<open>the buffer after \<^verbatim>\<open>data *= x\<close>\<close>
  np_imul256 :: "string \<Rightarrow> 'b \<Rightarrow> 'b"  \<comment> \<open>the buffer after \<^verbatim>\<open>data *= 256.0\<close>\<close>
  np_clip_low :: "string \<Rightarrow> 'b \<Rightarrow> 'b"  \<comment> \<open>after \<^verbatim>\<open>data[data<0.0] = 0.0\<close>\<close>
  np_clip_high :: "string \<Rightarrow> 'b \<Rightarrow> 'b"  \<comment> \<open>after \<^verbatim>\<open>data[data>256.0] = 256.0\<close>\<close>

text \<open>\<^verbatim>\<open>x != 0.0\<close>, \<^verbatim>\<open>x != 1.0\<close>, \<^verbatim>\<open>x - y\<close> and \<^verbatim>\<open>1.0 / x\<close> on Python numbers. Comparing an
  \<^verbatim>\<open>int\<close> with a float literal is exact; mixed arithmetic converts the \<^verbatim>\<open>int\<close>
  to \<^verbatim>\<open>float\<close> first, which raises OverflowError when it is too large; dividing by
  zero raises ZeroDivisionError.\<close>

fun py_ne0 :: "('f, 'b) runtime \<Rightarrow> 'f pynum \<Rightarrow> bool" where
  "py_ne0 rt (PyInt i) = (i \<noteq> 0)"
| "py_ne0 rt (PyFloat x) = (\<not> float_eq0 rt x)"

fun py_ne1 :: "('f, 'b) runtime \<Rightarrow> 'f pynum \<Rightarrow> bool" where
  "py_ne1 rt (PyInt i) = (i \<noteq> 1)"
| "py_ne1 rt (PyFloat x) = (\<not> float_eq1 rt x)"

fun py_sub :: "('f, 'b) runtime \<Rightarrow> 'f pynum \<Rightarrow> 'f pynum \<Rightarrow> error + 'f pynum" where
  "py_sub rt (PyInt i) (PyInt j) = Inr (PyInt (i - j))"
| "py_sub rt (PyInt i) (PyFloat y) =
     (case float_of_int rt i of
        None \<Rightarrow> Inl OverflowError
      | Some x \<Rightarrow> Inr (PyFloat (float_sub rt x y)))"
| "py_sub rt (PyFloat x) (PyInt j) =
     (case float_of_int rt j of
        None \<Rightarrow> Inl OverflowError
      | Some y \<Rightarrow> Inr (PyFloat (float_sub rt x y)))"
| "py_sub rt (PyFloat x) (PyFloat y) = Inr (PyFloat (float_sub rt x y))"

fun py_recip :: "('f, 'b) runtime \<Rightarrow> 'f pynum \<Rightarrow> error + 'f" where
  "py_recip rt (PyInt i) =
     (case float_of_int rt i of
        None \<Rightarrow> Inl OverflowError
      | Some x \<Rightarrow> if i = 0 then Inl ZeroDivisionError else Inr (float_recip rt x))"
| "py_recip rt (PyFloat x) =
     (if float_eq0 rt x then Inl ZeroDivisionError else Inr (float_recip rt x))"

subsection \<open>Strings\<close>

text \<open>\<^verbatim>\<open>s.startswith(p)\<close> is \<^const>\<open>prefix\<close>, \<^verbatim>\<open>p in s\<close> is \<^const>\<open>sublist\<close> and \<^verbatim>\<open>s[k:]\<close>
  is \<^const>\<open>drop\<close>. \<^verbatim>\<open>str(n)\<close> of a natural number is its decimal digits.\<close>

definition digit_char :: "nat \<Rightarrow> char" where
  "digit_char d = char_of (48 + d)"

fun str_nat :: "nat \<Rightarrow> string" where
  "str_nat n = (if n < 10 then [digit_char n] else str_nat (n div 10) @ [digit_char (n mod 10)])"

declare str_nat.simps [simp del]

definition digit_of :: "char \<Rightarrow> nat option" where
  "digit_of c = (let k = (of_char c :: nat) in if 48 \<le> k \<and> k \<le> 57 then Some (k - 48) else None)"

fun parse_digits :: "nat \<Rightarrow> string \<Rightarrow> nat option" where
  "parse_digits acc [] = Some acc"
| "parse_digits acc (c # cs) =
     (case digit_of c of None \<Rightarrow> None | Some d \<Rightarrow> parse_digits (10 * acc + d) cs)"

text \<open>\<^verbatim>\<open>int(s)\<close> on the strings that occur here, the tail of a dtype name: a
  non-empty run of decimal digits gives its value, anything else is a ValueError.
  (Signs, blanks and underscores, which Python also accepts, never occur in a dtype
  name.)\<close>

definition py_int :: "string \<Rightarrow> error + int" where
  "py_int s =
     (if s = [] then Inl ValueError
      else case parse_digits 0 s of None \<Rightarrow> Inl ValueError | Some n \<Rightarrow> Inr (int n))"

section \<open>numpy arrays\<close>

text \<open>
  The element kinds of numpy, by bit width; \<^verbatim>\<open>np.uint8\<close> is \<open>np_uint 8\<close>, \<^verbatim>\<open>np.float32\<close>
  is \<open>np_float 32\<close>. \<open>name\<close> is \<^verbatim>\<open>dtype.name\<close>. \<open>np_object\<close> stands for the kinds
  that are not numbers.
\<close>

datatype dtype =
    np_bool
  | np_uint nat
  | np_int nat
  | np_float nat
  | np_complex nat
  | np_object

fun name :: "dtype \<Rightarrow> string" where
  "name np_bool = ''bool''"
| "name (np_uint b) = ''uint'' @ str_nat b"
| "name (np_int b) = ''int'' @ str_nat b"
| "name (np_float b) = ''float'' @ str_nat b"
| "name (np_complex b) = ''complex'' @ str_nat b"
| "name np_object = ''object''"

text \<open>
  The dtype of an array is its kind and its byte order. \<open>byteswapped\<close> holds when the
  byte order is not the native one. \<^verbatim>\<open>dtype.name\<close> does not show the byte order;
  comparing two dtypes does.
\<close>

record 'b ndarray =
  dtype :: dtype
  byteswapped :: bool
  shape :: "int list"
  buf :: 'b

text \<open>\<^verbatim>\<open>data.dtype == t\<close> for one of numpy's scalar types \<open>t\<close>, which are in native byte
  order: the same kind and the same byte order, which a kind of one byte does not have.\<close>

definition dtype_is :: "'b ndarray \<Rightarrow> dtype \<Rightarrow> bool" where
  "dtype_is arr t \<longleftrightarrow>
     dtype arr = t \<and> (t \<in> {np_bool, np_uint 8, np_int 8} \<or> \<not> byteswapped arr)"

text \<open>
  Arrays are objects with identity: \<^verbatim>\<open>convert_data\<close> sometimes returns its argument
  and sometimes a new array, and it updates arrays in place. The heap is the list of
  all arrays allocated so far, and a reference is an index into it. A new array goes
  to the end of the heap. \<^verbatim>\<open>astype\<close> gives an array in native byte order; \<^verbatim>\<open>copy\<close> keeps
  the dtype, byte order included.
\<close>

type_synonym 'b heap = "'b ndarray list"

definition astype :: "('f, 'b) runtime \<Rightarrow> 'b heap \<Rightarrow> nat \<Rightarrow> dtype \<Rightarrow> 'b heap \<times> nat" where
  "astype rt h a t =
     (h @ [\<lparr>dtype = t, byteswapped = False, shape = shape (h ! a),
            buf = np_astype rt (name (dtype (h ! a))) (name t) (buf (h ! a))\<rparr>],
      length h)"

definition copy :: "'b heap \<Rightarrow> nat \<Rightarrow> 'b heap \<times> nat" where
  "copy h a = (h @ [h ! a], length h)"

definition isub ::
  "('f, 'b) runtime \<Rightarrow> 'b heap \<Rightarrow> nat \<Rightarrow> 'f pynum \<Rightarrow> error + 'b heap" where
  "isub rt h a x =
     (case np_isub rt (name (dtype (h ! a))) (buf (h ! a)) x of
        Inl e \<Rightarrow> Inl e
      | Inr b \<Rightarrow> Inr (h[a := (h ! a)\<lparr>buf := b\<rparr>]))"

definition imul :: "('f, 'b) runtime \<Rightarrow> 'b heap \<Rightarrow> nat \<Rightarrow> 'f \<Rightarrow> 'b heap" where
  "imul rt h a x = h[a := (h ! a)\<lparr>buf := np_imul rt (name (dtype (h ! a))) (buf (h ! a)) x\<rparr>]"

definition imul256 :: "('f, 'b) runtime \<Rightarrow> 'b heap \<Rightarrow> nat \<Rightarrow> 'b heap" where
  "imul256 rt h a = h[a := (h ! a)\<lparr>buf := np_imul256 rt (name (dtype (h ! a))) (buf (h ! a))\<rparr>]"

definition clip_low :: "('f, 'b) runtime \<Rightarrow> 'b heap \<Rightarrow> nat \<Rightarrow> 'b heap" where
  "clip_low rt h a = h[a := (h ! a)\<lparr>buf := np_clip_low rt (name (dtype (h ! a))) (buf (h ! a))\<rparr>]"

definition clip_high :: "('f, 'b) runtime \<Rightarrow> 'b heap \<Rightarrow> nat \<Rightarrow> 'b heap" where
  "clip_high rt h a = h[a := (h ! a)\<lparr>buf := np_clip_high rt (name (dtype (h ! a))) (buf (h ! a))\<rparr>]"

section \<open>\<^verbatim>\<open>oogl/__init__.py\<close>: capabilities\<close>

text \<open>\<^verbatim>\<open>ext_available\<close> answers True for every name ("for now"). The functions that
  consult it take the capability query as an argument \<open>ext\<close>, so that what is proved
  of them holds for this stub and for every later implementation.\<close>

definition ext_available :: "string \<Rightarrow> bool" where
  "ext_available extension_name = True"

section \<open>\<^verbatim>\<open>texture.py\<close>: \<^verbatim>\<open>convert_data\<close>\<close>

type_synonym 'f clim = "'f pynum \<times> 'f pynum"

text \<open>
  \<^verbatim>\<open>convert_data\<close> has three parts, in the order of its comments. The first one
  ("Determine clim if not given, copy or make float32 if necessary") chooses by the
  dtype name, in the order of the source's \<^verbatim>\<open>elif\<close> chain; it gives the reference now
  bound to \<^verbatim>\<open>data\<close>, the value of \<^verbatim>\<open>clim\<close> and the flag \<^verbatim>\<open>CONVERTING\<close>.
\<close>

definition convert_data_prepare ::
  "('f, 'b) runtime \<Rightarrow> (string \<Rightarrow> bool) \<Rightarrow> 'b heap \<Rightarrow> nat \<Rightarrow> 'f clim option
     \<Rightarrow> 'b heap \<times> (error + nat \<times> 'f clim option \<times> bool)" where
  "convert_data_prepare rt ext h data clim =
     (let FLOAT32_SUPPORT = ext ''texture_float'';
          FLOAT16_SUPPORT = ext ''texture_half_float'';
          nm = name (dtype (h ! data))
      in
      if nm = ''bool'' then
        (case astype rt h data (np_uint 8) of (h', d) \<Rightarrow> (h', Inr (d, None, False)))
      else if nm = ''uint8'' then
        (if clim \<noteq> None then
           (case astype rt h data (np_float 32) of (h', d) \<Rightarrow> (h', Inr (d, clim, False)))
         else (h, Inr (data, clim, False)))
      else if nm = ''float16'' then
        (if clim \<noteq> None then
           (case copy h data of (h', d) \<Rightarrow> (h', Inr (d, clim, False)))
         else if \<not> FLOAT16_SUPPORT then
           (case copy h data of (h', d) \<Rightarrow> (h', Inr (d, clim, True)))
         else (h, Inr (data, clim, False)))
      else if nm = ''float32'' then
        (if clim \<noteq> None then
           (case copy h data of (h', d) \<Rightarrow> (h', Inr (d, clim, False)))
         else if \<not> FLOAT32_SUPPORT then
           (case copy h data of (h', d) \<Rightarrow> (h', Inr (d, clim, True)))
         else (h, Inr (data, clim, False)))
      else if sublist ''float'' nm then
        (case astype rt h data (np_float 32) of (h', d) \<Rightarrow> (h', Inr (d, clim, True)))
      else if prefix ''int'' nm then
        (case (if clim = None then
                 (case py_int (drop 3 nm) of
                    Inl e \<Rightarrow> Inl e
                  | Inr b \<Rightarrow>
                      (let max = (2::int) ^ nat b
                       in Inr (Some (PyInt ((- max) div 2), PyInt (max div 2 - 1)))))
               else Inr clim) of
           Inl e \<Rightarrow> (h, Inl e)
         | Inr clim' \<Rightarrow>
             (case astype rt h data (np_float 32) of (h', d) \<Rightarrow> (h', Inr (d, clim', True))))
      else if prefix ''uint'' nm then
        (case (if clim = None then
                 (case py_int (drop 4 nm) of
                    Inl e \<Rightarrow> Inl e
                  | Inr b \<Rightarrow>
                      (let max = (2::int) ^ nat b
                       in Inr (Some (PyInt 0, PyInt (max div 2)))))
               else Inr clim) of
           Inl e \<Rightarrow> (h, Inl e)
         | Inr clim' \<Rightarrow>
             (case astype rt h data (np_float 32) of (h', d) \<Rightarrow> (h', Inr (d, clim', True))))
      else (h, Inl RuntimeError))"

text \<open>"Apply limits if necessary": both updates are in place, on the array \<open>data\<close>. The
  two assertions on \<^verbatim>\<open>clim\<close> (a tuple, of length 2) hold by its type. The source
  computes \<^verbatim>\<open>clim[1]-clim[0]\<close> twice, with the same result.\<close>

definition convert_data_apply_clim ::
  "('f, 'b) runtime \<Rightarrow> 'b heap \<Rightarrow> nat \<Rightarrow> 'f clim option \<Rightarrow> 'b heap \<times> (error + unit)" where
  "convert_data_apply_clim rt h data clim =
     (case clim of
        None \<Rightarrow> (h, Inr ())
      | Some (lo, hi) \<Rightarrow>
          (case (if py_ne0 rt lo then isub rt h data lo else Inr h) of
             Inl e \<Rightarrow> (h, Inl e)
           | Inr h1 \<Rightarrow>
               (case py_sub rt hi lo of
                  Inl e \<Rightarrow> (h1, Inl e)
                | Inr spn \<Rightarrow>
                    if py_ne1 rt spn then
                      (case py_recip rt spn of
                         Inl e \<Rightarrow> (h1, Inl e)
                       | Inr r \<Rightarrow> (imul rt h1 data r, Inr ()))
                    else (h1, Inr ()))))"

text \<open>"Convert if necessary": what is not uploadable as it is, is scaled, clipped and
  cast to \<^verbatim>\<open>uint8\<close>. The tests compare dtypes, so a \<^verbatim>\<open>float16\<close> or \<^verbatim>\<open>float32\<close> array that
  is not in native byte order fails all of them and reaches the last \<^verbatim>\<open>raise\<close>.\<close>

definition convert_data_finalize ::
  "('f, 'b) runtime \<Rightarrow> (string \<Rightarrow> bool) \<Rightarrow> 'b heap \<Rightarrow> nat \<Rightarrow> 'b heap \<times> (error + nat)" where
  "convert_data_finalize rt ext h data =
     (let FLOAT32_SUPPORT = ext ''texture_float'';
          FLOAT16_SUPPORT = ext ''texture_half_float'';
          arr = h ! data
      in
      if dtype_is arr (np_uint 8) then (h, Inr data)
      else if dtype_is arr (np_float 16) \<and> FLOAT16_SUPPORT then (h, Inr data)
      else if dtype_is arr (np_float 32) \<and> FLOAT32_SUPPORT then (h, Inr data)
      else if dtype_is arr (np_float 16) \<or> dtype_is arr (np_float 32) then
        (let h1 = imul256 rt h data;
             h2 = clip_low rt h1 data;
             h3 = clip_high rt h2 data
         in case astype rt h3 data (np_uint 8) of (h4, d) \<Rightarrow> (h4, Inr d))
      else (h, Inl RuntimeError))"

text \<open>The whole function: the heap after the call, and the exception raised or the
  reference returned.\<close>

definition convert_data ::
  "('f, 'b) runtime \<Rightarrow> (string \<Rightarrow> bool) \<Rightarrow> 'b heap \<Rightarrow> nat \<Rightarrow> 'f clim option
     \<Rightarrow> 'b heap \<times> (error + nat)" where
  "convert_data rt ext h data clim =
     (case convert_data_prepare rt ext h data clim of
        (h1, Inl e) \<Rightarrow> (h1, Inl e)
      | (h1, Inr (d, clim', CONVERTING)) \<Rightarrow>
          (case convert_data_apply_clim rt h1 d clim' of
             (h2, Inl e) \<Rightarrow> (h2, Inl e)
           | (h2, Inr _) \<Rightarrow> convert_data_finalize rt ext h2 d))"

section \<open>The driver\<close>

text \<open>
  Modelled from the spec: the constants of the module \<^verbatim>\<open>vispy.gl\<close>, which is not among
  the sources. The spec names the targets (2D, 3D, cube map reserved), the pixel
  formats, the three uploadable element types and the filter parameters; they are
  distinct constants here, and \<open>GL_ENUM i\<close> is any other value.
\<close>

datatype GLenum =
    GL_TEXTURE_2D
  | GL_TEXTURE_3D
  | GL_TEXTURE_CUBE_MAP
  | GL_RGB
  | GL_RGBA
  | GL_LUMINANCE
  | GL_LUMINANCE_ALPHA
  | GL_ALPHA
  | GL_UNSIGNED_BYTE
  | GL_HALF_FLOAT
  | GL_FLOAT
  | GL_TEXTURE_MIN_FILTER
  | GL_TEXTURE_MAG_FILTER
  | GL_LINEAR
  | GL_UNPACK_ALIGNMENT
  | GL_ENUM int

text \<open>
  Every call into the driver is recorded, with its arguments, in the order it is made.
  \<open>glActiveTexture u\<close> stands for \<^verbatim>\<open>glActiveTexture(GL_TEXTURE0 + u)\<close>; \<open>glTexImage n\<close>
  and \<open>glTexSubImage n\<close> stand for the \<open>n\<close>-dimensional upload functions, with the
  arguments of the source's \<^verbatim>\<open>args\<close> list (the array that is passed is recorded by
  value).
\<close>

datatype 'b gl_call =
    glEnable GLenum
  | glDisable GLenum
  | glGenTextures int
  | glDeleteTextures "int list"
  | glActiveTexture int
  | glBindTexture GLenum int
  | glIsTexture int
  | glPixelStorei GLenum int
  | glTexImage nat GLenum int GLenum "int list" int GLenum GLenum "'b ndarray option"
  | glTexSubImage nat GLenum int "int list" "int list" GLenum GLenum "'b ndarray"
  | glTexParameter GLenum GLenum GLenum

text \<open>What the driver answers is not decided by the repository: the handle that
  \<^verbatim>\<open>glGenTextures\<close> returns and the answer of \<^verbatim>\<open>glIsTexture\<close> are functions of the
  calls made so far, given as an argument \<open>drv\<close>.\<close>

record 'b driver =
  gen_textures :: "'b gl_call list \<Rightarrow> int"
  is_texture :: "'b gl_call list \<Rightarrow> int \<Rightarrow> bool"

text \<open>The state outside the texture object: the arrays, the calls made so far, the
  module's dict \<^verbatim>\<open>ENABLE_QUEUE\<close>, and what was printed.\<close>

record 'b world =
  heap :: "'b heap"
  gl_calls :: "'b gl_call list"
  ENABLE_QUEUE :: "GLenum \<rightharpoonup> int"
  stdout :: "string list"

definition call :: "'b world \<Rightarrow> 'b gl_call \<Rightarrow> 'b world" where
  "call w c = w\<lparr>gl_calls := gl_calls w @ [c]\<rparr>"

definition dict_get :: "('k \<rightharpoonup> 'v) \<Rightarrow> 'k \<Rightarrow> 'v \<Rightarrow> 'v" where
  "dict_get d k dflt = (case d k of None \<Rightarrow> dflt | Some v \<Rightarrow> v)"

section \<open>\<^verbatim>\<open>oogl/__init__.py\<close>: \<^verbatim>\<open>push_enable\<close> and \<^verbatim>\<open>pop_enable\<close>\<close>

definition push_enable :: "'b world \<Rightarrow> GLenum \<Rightarrow> 'b world" where
  "push_enable w enum =
     (let cur = dict_get (ENABLE_QUEUE w) enum 0;
          w1 = (if cur = 0 then call w (glEnable enum) else w)
      in w1\<lparr>ENABLE_QUEUE := (ENABLE_QUEUE w1)(enum \<mapsto> cur + 1)\<rparr>)"

definition pop_enable :: "'b world \<Rightarrow> GLenum \<Rightarrow> 'b world" where
  "pop_enable w enum =
     (let cur = dict_get (ENABLE_QUEUE w) enum 0;
          w1 = (if cur = 1 then call w (glDisable enum) else w)
      in w1\<lparr>ENABLE_QUEUE := (ENABLE_QUEUE w1)(enum \<mapsto> max 0 (cur - 1))\<rparr>)"

section \<open>\<^verbatim>\<open>texture.py\<close>: the texture classes\<close>

text \<open>
  The fields of a \<^verbatim>\<open>Texture\<close> object. \<^verbatim>\<open>_pending_data\<close> is \<^verbatim>\<open>None\<close> or the tuple
  \<^verbatim>\<open>(data, offset, level, format, clim)\<close>. The two parameter dicts are association
  lists in insertion order: \<^verbatim>\<open>d[k] = v\<close> is \<^const>\<open>AList.update\<close>, \<^verbatim>\<open>items()\<close> is the
  list, and \<^verbatim>\<open>popitem()\<close> takes the last pair. The field \<open>texunit\<close> is \<^verbatim>\<open>_unit\<close>, and a
  reference to an array is its index in the heap.
\<close>

type_synonym 'f pending =
  "nat option \<times> int list option \<times> int \<times> GLenum option \<times> 'f clim option"

record 'f texture =
  target :: GLenum
  handle :: int
  texunit :: int
  pending_data :: "'f pending option"
  texture_shape :: "int list option"
  texture_params :: "(GLenum \<times> GLenum) list"
  pending_params :: "(GLenum \<times> GLenum) list"

definition DTYPES :: "string \<rightharpoonup> GLenum" where
  "DTYPES = map_of [(''uint8'', GL_UNSIGNED_BYTE), (''float16'', GL_HALF_FLOAT),
                    (''float32'', GL_FLOAT)]"

text \<open>The dicts \<^verbatim>\<open>D\<close> and \<^verbatim>\<open>MAP\<close> from a target to its number of dimensions (and, in
  \<^verbatim>\<open>D\<close>, to the upload function of that dimension).\<close>

definition MAP :: "GLenum \<rightharpoonup> nat" where
  "MAP = map_of [(GL_TEXTURE_2D, 2), (GL_TEXTURE_3D, 3)]"

subsection \<open>\<^verbatim>\<open>GLObject\<close> and \<^verbatim>\<open>_RawTexture\<close>\<close>

text \<open>
  A method takes the world and the object and gives them back, with the exception or
  the result where it can raise. Driver calls themselves are taken not to raise, so
  the \<^verbatim>\<open>try\<close> of \<^verbatim>\<open>GLObject.delete\<close> has nothing to catch.
\<close>

definition RawTexture_create ::
  "'b driver \<Rightarrow> 'b world \<Rightarrow> 'f texture \<Rightarrow> 'b world \<times> 'f texture" where
  "RawTexture_create drv w t =
     (call w (glGenTextures 1), t\<lparr>handle := gen_textures drv (gl_calls w)\<rparr>)"

definition RawTexture_delete :: "'b world \<Rightarrow> 'f texture \<Rightarrow> 'b world" where
  "RawTexture_delete w t = call w (glDeleteTextures [handle t])"

definition GLObject_delete :: "'b world \<Rightarrow> 'f texture \<Rightarrow> 'b world \<times> 'f texture" where
  "GLObject_delete w t =
     ((if handle t > 0 then RawTexture_delete w t else w), t\<lparr>handle := 0\<rparr>)"

definition RawTexture_enable :: "'b world \<Rightarrow> 'f texture \<Rightarrow> 'b world" where
  "RawTexture_enable w t =
     (let w1 = push_enable w (target t);
          w2 = (if texunit t \<ge> 0 then call w1 (glActiveTexture (texunit t)) else w1)
      in call w2 (glBindTexture (target t) (handle t)))"

definition RawTexture_disable :: "'b world \<Rightarrow> 'f texture \<Rightarrow> 'b world \<times> 'f texture" where
  "RawTexture_disable w t =
     (let (w1, t1) = (if texunit t \<ge> 0
                      then (call w (glActiveTexture (texunit t)), t\<lparr>texunit := - 1\<rparr>)
                      else (w, t));
          w2 = call w1 (glBindTexture (target t1) 0);
          w3 = call w2 (glActiveTexture 0)
      in (pop_enable w3 (target t1), t1))"

definition get_size_and_type :: "'b ndarray \<Rightarrow> nat \<Rightarrow> error + int list \<times> GLenum" where
  "get_size_and_type data ndim =
     (let sz = rev (take ndim (shape data));
          thetype = name (dtype data)
      in case DTYPES thetype of
           None \<Rightarrow> Inl ValueError
         | Some gltype \<Rightarrow> Inr (sz, gltype))"

text \<open>\<^verbatim>\<open>_get_alignment\<close>: the loop over \<^verbatim>\<open>[4,8,2,1]\<close>; falling out of it returns \<^verbatim>\<open>None\<close>.\<close>

fun get_alignment_loop :: "int list \<Rightarrow> int \<Rightarrow> int option" where
  "get_alignment_loop [] width = None"
| "get_alignment_loop (alignment # alignments) width =
     (if width mod alignment = 0 then Some alignment
      else get_alignment_loop alignments width)"

definition get_alignment :: "int \<Rightarrow> int option" where
  "get_alignment width = get_alignment_loop [4, 8, 2, 1] width"

definition RawTexture_allocate ::
  "'b world \<Rightarrow> 'f texture \<Rightarrow> int list option \<Rightarrow> GLenum \<Rightarrow> int \<Rightarrow> 'b world \<times> (error + unit)" where
  "RawTexture_allocate w t shp format level =
     (case MAP (target t) of
        None \<Rightarrow> (w, Inl KeyError)
      | Some ndim \<Rightarrow>
          (case shp of
             None \<Rightarrow> (w, Inl TypeError)
           | Some s \<Rightarrow>
               (let gltype = GL_UNSIGNED_BYTE;
                    sz = rev (take ndim s)
                in (call w (glTexImage ndim (target t) level format sz 0 format gltype None),
                    Inr ()))))"

definition RawTexture_upload ::
  "'b world \<Rightarrow> 'f texture \<Rightarrow> nat \<Rightarrow> GLenum \<Rightarrow> int \<Rightarrow> 'b world \<times> (error + unit)" where
  "RawTexture_upload w t data format level =
     (let arr = heap w ! data in
      case MAP (target t) of
        None \<Rightarrow> (w, Inl KeyError)
      | Some ndim \<Rightarrow>
          (case get_size_and_type arr ndim of
             Inl e \<Rightarrow> (w, Inl e)
           | Inr (sz, gltype) \<Rightarrow>
               if shape arr = [] then (w, Inl IndexError)
               else
                 (case get_alignment (last (shape arr)) of
                    None \<Rightarrow> (w, Inl TypeError)
                  | Some alignment \<Rightarrow>
                      (let w1 = (if alignment \<noteq> 4
                                 then call w (glPixelStorei GL_UNPACK_ALIGNMENT alignment)
                                 else w);
                           w2 = call w1 (glTexImage ndim (target t) level format sz 0
                                           format gltype (Some arr));
                           w3 = (if alignment \<noteq> 4
                                 then call w2 (glPixelStorei GL_UNPACK_ALIGNMENT 4)
                                 else w2)
                       in (w3, Inr ())))))"

definition RawTexture_update ::
  "'b world \<Rightarrow> 'f texture \<Rightarrow> nat option \<Rightarrow> int list \<Rightarrow> GLenum \<Rightarrow> int
     \<Rightarrow> 'b world \<times> (error + unit)" where
  "RawTexture_update w t data offset format level =
     (case MAP (target t) of
        None \<Rightarrow> (w, Inl KeyError)
      | Some ndim \<Rightarrow>
          (case data of
             None \<Rightarrow> (w, Inl AttributeError)
           | Some d \<Rightarrow>
               (let arr = heap w ! d in
                case get_size_and_type arr ndim of
                  Inl e \<Rightarrow> (w, Inl e)
                | Inr (sz, gltype) \<Rightarrow>
                    if length offset \<noteq> length sz then (w, Inl AssertionError)
                    else (call w (glTexSubImage ndim (target t) level offset sz
                                    format gltype arr),
                          Inr ()))))"

subsection \<open>\<^verbatim>\<open>Texture\<close>\<close>

text \<open>\<^verbatim>\<open>set_parameter\<close> for a parameter given as a constant (a string is first looked up
  in the module \<^verbatim>\<open>gl\<close>).\<close>

definition set_parameter :: "'f texture \<Rightarrow> GLenum \<Rightarrow> GLenum \<Rightarrow> 'f texture" where
  "set_parameter t param v =
     t\<lparr>pending_params := AList.update param v (pending_params t),
       texture_params := AList.update param v (texture_params t)\<rparr>"

text \<open>"Reset if there was an error earlier", the first statement of \<^verbatim>\<open>set_data\<close> and of
  \<^verbatim>\<open>set_storage\<close>.\<close>

definition reset_if_error :: "'f texture \<Rightarrow> 'f texture" where
  "reset_if_error t = (if handle t < 0 then t\<lparr>handle := 0, texture_shape := None\<rparr> else t)"

definition valid_format :: "GLenum option \<Rightarrow> bool" where
  "valid_format format \<longleftrightarrow>
     format \<in> {None, Some GL_RGB, Some GL_RGBA, Some GL_LUMINANCE,
               Some GL_LUMINANCE_ALPHA, Some GL_ALPHA}"

text \<open>
  \<^verbatim>\<open>set_data(data, offset, level, format, clim)\<close>. The heap is read for \<^verbatim>\<open>data.shape\<close>.
  The result is the texture after the call, also when the call raises, with the
  exception or \<open>Inr ()\<close>.
\<close>

definition set_data ::
  "'b heap \<Rightarrow> 'f texture \<Rightarrow> nat \<Rightarrow> int list option \<Rightarrow> int \<Rightarrow> GLenum option \<Rightarrow> 'f clim option
     \<Rightarrow> 'f texture \<times> (error + unit)" where
  "set_data h t data offset level format clim =
     (let t1 = reset_if_error t;
          ndim = dict_get MAP (target t1) 0;
          shp = shape (h ! data)
      in
      if length shp \<notin> {ndim, ndim + 1} then (t1, Inl AssertionError)
      else
        (case (case offset of
                 Some off \<Rightarrow>
                   if length off = length (take ndim shp) then Inr (Some off)
                   else Inl AssertionError
               | None \<Rightarrow>
                   (case texture_shape t1 of
                      None \<Rightarrow> Inr None
                    | Some ts \<Rightarrow>
                        if shp = ts \<and> handle t1 > 0
                        then Inr (Some (map (\<lambda>i. 0) (take ndim ts)))
                        else Inr None)) of
           Inl e \<Rightarrow> (t1, Inl e)
         | Inr offset' \<Rightarrow>
             if \<not> level \<ge> 0 then (t1, Inl AssertionError)
             else if \<not> valid_format format then (t1, Inl AssertionError)
             else (t1\<lparr>pending_data := Some (Some data, offset', level, format, clim),
                      texture_shape := Some shp\<rparr>,
                   Inr ())))"

definition set_storage ::
  "'f texture \<Rightarrow> int list \<Rightarrow> int \<Rightarrow> GLenum option \<Rightarrow> 'f texture \<times> (error + unit)" where
  "set_storage t shp level format =
     (let t1 = reset_if_error t;
          ndim = dict_get MAP (target t1) 0
      in
      if format = None \<and> level = 0 \<and> texture_shape t1 \<noteq> None
         \<and> take ndim (the (texture_shape t1)) = take ndim shp
      then (t1, Inr ())
      else if length shp \<notin> {ndim, ndim + 1} then (t1, Inl AssertionError)
      else if \<not> list_all (\<lambda>i. i > 0) shp then (t1, Inl AssertionError)
      else if \<not> level \<ge> 0 then (t1, Inl AssertionError)
      else if \<not> valid_format format then (t1, Inl AssertionError)
      else (t1\<lparr>pending_data := Some (None, None, level, format, None),
               texture_shape := Some shp\<rparr>,
            Inr ()))"

text \<open>\<^verbatim>\<open>Texture.__init__\<close>, after \<^verbatim>\<open>_RawTexture.__init__\<close>; the argument \<^verbatim>\<open>data\<close> is
  \<^verbatim>\<open>None\<close>, an array or a shape tuple.\<close>

datatype init_data = NoData | Array nat | Shape "int list"

definition Texture_init ::
  "'b heap \<Rightarrow> GLenum \<Rightarrow> init_data \<Rightarrow> GLenum option \<Rightarrow> 'f clim option
     \<Rightarrow> error + 'f texture" where
  "Texture_init h tgt data format clim =
     (if tgt \<notin> {GL_TEXTURE_2D, GL_TEXTURE_3D} then Inl ValueError
      else
        (let t0 = \<lparr>target = tgt, handle = 0, texunit = - 1, pending_data = None,
                   texture_shape = None, texture_params = [], pending_params = []\<rparr>;
             t1 = set_parameter t0 GL_TEXTURE_MIN_FILTER GL_LINEAR;
             t2 = set_parameter t1 GL_TEXTURE_MAG_FILTER GL_LINEAR
         in case data of
              NoData \<Rightarrow> Inr t2
            | Array a \<Rightarrow>
                (case set_data h t2 a None 0 format clim of
                   (t3, Inl e) \<Rightarrow> Inl e
                 | (t3, Inr _) \<Rightarrow> Inr t3)
            | Shape s \<Rightarrow>
                (case set_storage t2 s 0 format of
                   (t3, Inl e) \<Rightarrow> Inl e
                 | (t3, Inr _) \<Rightarrow> Inr t3)))"

subsection \<open>\<^verbatim>\<open>get_format\<close>\<close>

definition get_format :: "int list option \<Rightarrow> GLenum \<Rightarrow> error + GLenum" where
  "get_format shp tgt =
     (if tgt = GL_TEXTURE_2D then
        (case shp of
           None \<Rightarrow> Inl TypeError
         | Some s \<Rightarrow>
             if length s = 2 then Inr GL_LUMINANCE
             else if length s = 3 \<and> s ! 2 = 1 then Inr GL_LUMINANCE
             else if length s = 3 \<and> s ! 2 = 2 then Inr GL_LUMINANCE_ALPHA
             else if length s = 3 \<and> s ! 2 = 3 then Inr GL_RGB
             else if length s = 3 \<and> s ! 2 = 4 then Inr GL_RGBA
             else Inl ValueError)
      else if tgt = GL_TEXTURE_3D then
        (case shp of
           None \<Rightarrow> Inl TypeError
         | Some s \<Rightarrow>
             if length s = 3 then Inr GL_LUMINANCE
             else if length s = 4 \<and> s ! 3 = 1 then Inr GL_LUMINANCE
             else if length s = 4 \<and> s ! 3 = 2 then Inr GL_LUMINANCE_ALPHA
             else if length s = 4 \<and> s ! 3 = 3 then Inr GL_RGB
             else if length s = 4 \<and> s ! 3 = 4 then Inr GL_RGBA
             else Inl ValueError)
      else Inl ValueError)"

subsection \<open>Activation\<close>

text \<open>\<^verbatim>\<open>if offset:\<close> holds for a sequence that is not empty.\<close>

fun truthy :: "'a list option \<Rightarrow> bool" where
  "truthy None = False"
| "truthy (Some xs) = (xs \<noteq> [])"

text \<open>
  \<^verbatim>\<open>_process_pending_data(data, offset, level, format, clim)\<close>: the world and the
  texture after the call, and the exception or \<open>Inr ()\<close>.
\<close>

definition process_pending_data ::
  "('f, 'b) runtime \<Rightarrow> (string \<Rightarrow> bool) \<Rightarrow> 'b driver \<Rightarrow> 'b world \<Rightarrow> 'f texture \<Rightarrow> 'f pending
     \<Rightarrow> 'b world \<times> 'f texture \<times> (error + unit)" where
  "process_pending_data rt ext drv w t pd =
     (case pd of (data, offset, level, format, clim) \<Rightarrow>
      (case (case data of
               None \<Rightarrow> (heap w, Inr None)
             | Some a \<Rightarrow>
                 (case convert_data rt ext (heap w) a clim of
                    (h', Inl e) \<Rightarrow> (h', Inl e)
                  | (h', Inr d) \<Rightarrow> (h', Inr (Some d)))) of
         (h', Inl e) \<Rightarrow> (w\<lparr>heap := h'\<rparr>, t, Inl e)
       | (h', Inr data') \<Rightarrow>
           (let w1 = w\<lparr>heap := h'\<rparr>;
                shp = (case data' of
                         Some d \<Rightarrow> Some (shape (h' ! d))
                       | None \<Rightarrow> texture_shape t)
            in case (case format of
                       None \<Rightarrow> get_format shp (target t)
                     | Some f \<Rightarrow> Inr f) of
                 Inl e \<Rightarrow> (w1, t, Inl e)
               | Inr format' \<Rightarrow>
                   if truthy offset then
                     (let w2 = call w1 (glBindTexture (target t) (handle t)) in
                      if handle t \<le> 0 then (w2, t, Inl ValueError)
                      else if \<not> is_texture drv (gl_calls w2) (handle t)
                      then (call w2 (glIsTexture (handle t)), t, Inl ValueError)
                      else
                        (case RawTexture_update (call w2 (glIsTexture (handle t))) t data'
                                (the offset) format' level of
                           (w3, r) \<Rightarrow> (w3, t, r)))
                   else
                     (case GLObject_delete w1 t of (w2, t2) \<Rightarrow>
                      case RawTexture_create drv w2 t2 of (w3, t3) \<Rightarrow>
                      (let w4 = call w3 (glBindTexture (target t3) (handle t3)) in
                       case (case data' of
                               None \<Rightarrow> RawTexture_allocate w4 t3 shp format' level
                             | Some d \<Rightarrow> RawTexture_upload w4 t3 d format' level) of
                         (w5, Inl e) \<Rightarrow> (w5, t3, Inl e)
                       | (w5, Inr _) \<Rightarrow>
                           (foldl (\<lambda>w' (param, v). call w' (glTexParameter (target t3) param v))
                              w5 (texture_params t3),
                            t3\<lparr>pending_params := []\<rparr>,
                            Inr ()))))))"

text \<open>The loop \<^verbatim>\<open>while self._pending_params: ... popitem()\<close> at the end of \<^verbatim>\<open>_enable\<close>.\<close>

function flush_pending_params :: "'b world \<Rightarrow> 'f texture \<Rightarrow> 'b world \<times> 'f texture" where
  "flush_pending_params w t =
     (if pending_params t = [] then (w, t)
      else
        (case last (pending_params t) of (param, v) \<Rightarrow>
           flush_pending_params (call w (glTexParameter (target t) param v))
             (t\<lparr>pending_params := butlast (pending_params t)\<rparr>)))"
  by pat_completeness auto
termination
  by (relation "measure (\<lambda>(w, t). length (pending_params t))") auto

declare flush_pending_params.simps [simp del]

text \<open>
  \<^verbatim>\<open>Texture._enable\<close>. The block "Need to update data?" comes first, as a function of
  its own: it gives \<open>Inr False\<close> when the method returns from inside the block and
  \<open>Inr True\<close> when control goes on to the statements after it.
\<close>

definition enable_update_data ::
  "('f, 'b) runtime \<Rightarrow> (string \<Rightarrow> bool) \<Rightarrow> 'b driver \<Rightarrow> 'b world \<Rightarrow> 'f texture
     \<Rightarrow> 'b world \<times> 'f texture \<times> (error + bool)" where
  "enable_update_data rt ext drv w t =
     (case pending_data t of
        None \<Rightarrow> (w, t, Inr True)
      | Some pendingData \<Rightarrow>
          (case process_pending_data rt ext drv w (t\<lparr>pending_data := None\<rparr>) pendingData of
             (w1, t1, Inl e) \<Rightarrow> (w1, t1, Inl e)
           | (w1, t1, Inr _) \<Rightarrow>
               if \<not> is_texture drv (gl_calls w1) (handle t1)
               then ((call w1 (glIsTexture (handle t1)))
                       \<lparr>stdout := stdout w1 @
                          [''Warning enabling texture, the texture is not valid.'']\<rparr>,
                     t1\<lparr>handle := - 1\<rparr>, Inr False)
               else (call w1 (glIsTexture (handle t1)), t1, Inr True)))"

definition Texture_enable ::
  "('f, 'b) runtime \<Rightarrow> (string \<Rightarrow> bool) \<Rightarrow> 'b driver \<Rightarrow> 'b world \<Rightarrow> 'f texture
     \<Rightarrow> 'b world \<times> 'f texture \<times> (error + unit)" where
  "Texture_enable rt ext drv w t =
     (if handle t < 0 then (w, t, Inr ())
      else if target t = GL_TEXTURE_3D \<and> \<not> ext ''GL_texture_3D''
      then (w, t\<lparr>handle := - 1\<rparr>, Inr ())
      else
        (case enable_update_data rt ext drv w t of
           (w1, t1, Inl e) \<Rightarrow> (w1, t1, Inl e)
         | (w1, t1, Inr False) \<Rightarrow> (w1, t1, Inr ())
         | (w1, t1, Inr True) \<Rightarrow>
             if handle t1 = 0 then (w1, t1, Inr ())
             else if \<not> is_texture drv (gl_calls w1) (handle t1)
             then (call w1 (glIsTexture (handle t1)), t1, Inl RuntimeError)
             else
               (case flush_pending_params
                       (RawTexture_enable (call w1 (glIsTexture (handle t1))) t1) t1 of
                  (w2, t2) \<Rightarrow> (w2, t2, Inr ()))))"

text \<open>\<^verbatim>\<open>_disable\<close> is inherited from \<^verbatim>\<open>_RawTexture\<close>.\<close>

section \<open>Notions used to state the properties\<close>

text \<open>The element kinds for which the \<^verbatim>\<open>elif\<close> chain of \<^verbatim>\<open>convert_data\<close> has a branch:
  booleans, unsigned and signed integers, floats.\<close>

fun supported :: "dtype \<Rightarrow> bool" where
  "supported np_bool = True"
| "supported (np_uint b) = True"
| "supported (np_int b) = True"
| "supported (np_float b) = True"
| "supported (np_complex b) = False"
| "supported np_object = False"

text \<open>The arrays that may be returned: of dtype \<^verbatim>\<open>uint8\<close>, or of one of the two float
  dtypes when its capability is available.\<close>

definition uploadable :: "(string \<Rightarrow> bool) \<Rightarrow> 'b ndarray \<Rightarrow> bool" where
  "uploadable ext arr \<longleftrightarrow>
     dtype_is arr (np_uint 8) \<or> (dtype_is arr (np_float 16) \<and> ext ''texture_half_float'')
       \<or> (dtype_is arr (np_float 32) \<and> ext ''texture_float'')"

text \<open>The kinds that the first part passes on without a copy when there are no limits.\<close>

definition direct_kind :: "(string \<Rightarrow> bool) \<Rightarrow> dtype \<Rightarrow> bool" where
  "direct_kind ext t \<longleftrightarrow>
     t = np_uint 8 \<or> (t = np_float 16 \<and> ext ''texture_half_float'')
       \<or> (t = np_float 32 \<and> ext ''texture_float'')"

text \<open>The calls of a full re-upload (delete, create, allocate or upload), and the call
  of a partial update.\<close>

fun realloc_call :: "'b gl_call \<Rightarrow> bool" where
  "realloc_call (glDeleteTextures hs) = True"
| "realloc_call (glGenTextures n) = True"
| "realloc_call (glTexImage n tgt level ifmt sz border fmt gltype data) = True"
| "realloc_call c = False"

fun update_call :: "int list \<Rightarrow> 'b gl_call \<Rightarrow> bool" where
  "update_call off (glTexSubImage n tgt level offset sz fmt gltype data) = (offset = off)"
| "update_call off c = False"

text \<open>The calls made since the world \<open>w\<close>.\<close>

definition new_calls :: "'b world \<Rightarrow> 'b world \<Rightarrow> 'b gl_call list" where
  "new_calls w w' = drop (length (gl_calls w)) (gl_calls w')"

text \<open>\<open>n\<close> activations in a row.\<close>

primrec enable_times ::
  "('f, 'b) runtime \<Rightarrow> (string \<Rightarrow> bool) \<Rightarrow> 'b driver \<Rightarrow> nat \<Rightarrow> 'b world \<Rightarrow> 'f texture
     \<Rightarrow> 'b world \<times> 'f texture" where
  "enable_times rt ext drv 0 w t = (w, t)"
| "enable_times rt ext drv (Suc n) w t =
     (case Texture_enable rt ext drv w t of (w', t', r) \<Rightarrow> enable_times rt ext drv n w' t')"

text \<open>A sequence of \<^verbatim>\<open>push_enable\<close> and \<^verbatim>\<open>pop_enable\<close> calls, and the counter of a
  capability, \<^verbatim>\<open>ENABLE_QUEUE.get(enum, 0)\<close>.\<close>

datatype queue_op = Push GLenum | Pop GLenum

fun run_queue_ops :: "'b world \<Rightarrow> queue_op list \<Rightarrow> 'b world" where
  "run_queue_ops w [] = w"
| "run_queue_ops w (Push enum # ops) = run_queue_ops (push_enable w enum) ops"
| "run_queue_ops w (Pop enum # ops) = run_queue_ops (pop_enable w enum) ops"

definition counter :: "'b world \<Rightarrow> GLenum \<Rightarrow> int" where
  "counter w enum = dict_get (ENABLE_QUEUE w) enum 0"

subsection \<open>A runtime and a driver to run the functions\<close>

text \<open>
  An idealised runtime, with exact rational arithmetic in place of floating point and
  a buffer that is the list of the elements, and a driver that hands out the handles
  1, 2, ... and takes every positive handle for a texture. They serve to run the
  functions on concrete inputs; the properties below are proved for every runtime
  and every driver.
\<close>

definition ideal_runtime :: "(rat, rat list) runtime" where
  "ideal_runtime =
     \<lparr>float_of_int = (\<lambda>i. Some (of_int i)),
      float_sub = (\<lambda>x y. x - y),
      float_recip = (\<lambda>x. 1 / x),
      float_eq0 = (\<lambda>x. x = 0),
      float_eq1 = (\<lambda>x. x = 1),
      np_astype = (\<lambda>from_type to_type b.
         if to_type = ''uint8'' then map (\<lambda>x. of_int (\<lfloor>x\<rfloor> mod 256)) b else b),
      np_isub = (\<lambda>nm b x.
         Inr (map (\<lambda>v. v - (case x of PyInt i \<Rightarrow> of_int i | PyFloat y \<Rightarrow> y)) b)),
      np_imul = (\<lambda>nm b x. map (\<lambda>v. v * x) b),
      np_imul256 = (\<lambda>nm b. map (\<lambda>v. v * 256) b),
      np_clip_low = (\<lambda>nm b. map (\<lambda>v. if v < 0 then 0 else v) b),
      np_clip_high = (\<lambda>nm b. map (\<lambda>v. if v > 256 then 256 else v) b)\<rparr>"

fun is_gen :: "'b gl_call \<Rightarrow> bool" where
  "is_gen (glGenTextures n) = True"
| "is_gen c = False"

definition counting_driver :: "'b driver" where
  "counting_driver =
     \<lparr>gen_textures = (\<lambda>calls. int (length (filter is_gen calls)) + 1),
      is_texture = (\<lambda>calls x. x > 0)\<rparr>"

definition empty_world :: "'b heap \<Rightarrow> 'b world" where
  "empty_world h = \<lparr>heap = h, gl_calls = [], ENABLE_QUEUE = Map.empty, stdout = []\<rparr>"

subsection \<open>Example states\<close>

text \<open>
  Concrete arrays and textures on which the properties are run: an RGB image, an array
  of complex numbers and a one-dimensional array; a 2D texture as it is after its
  first activation (\<open>resident_texture\<close>), after a failed one (\<open>errored_texture\<close>) and
  after construction from a shape (\<open>storage_texture\<close>); and a driver that recognises no
  handle.
\<close>

definition rgb_heap :: "rat list heap" where
  "rgb_heap = [\<lparr>dtype = np_uint 8, byteswapped = False, shape = [4, 4, 3], buf = [1, 2, 3]\<rparr>]"

definition complex_heap :: "rat list heap" where
  "complex_heap = [\<lparr>dtype = np_complex 128, byteswapped = False, shape = [4, 4, 3], buf = [1, 2, 3]\<rparr>]"

definition vector_heap :: "rat list heap" where
  "vector_heap = [\<lparr>dtype = np_uint 8, byteswapped = False, shape = [4], buf = [1, 2, 3, 4]\<rparr>]"

definition lost_driver :: "'b driver" where
  "lost_driver = \<lparr>gen_textures = (\<lambda>calls. 1), is_texture = (\<lambda>calls x. False)\<rparr>"

definition errored_texture :: "'f texture" where
  "errored_texture =
     \<lparr>target = GL_TEXTURE_2D, handle = - 1, texunit = - 1, pending_data = None,
      texture_shape = Some [4, 4],
      texture_params = [(GL_TEXTURE_MIN_FILTER, GL_LINEAR), (GL_TEXTURE_MAG_FILTER, GL_LINEAR)],
      pending_params = []\<rparr>"

definition resident_texture :: "'f texture" where
  "resident_texture =
     \<lparr>target = GL_TEXTURE_2D, handle = 1, texunit = - 1, pending_data = None,
      texture_shape = Some [4, 4, 3],
      texture_params = [(GL_TEXTURE_MIN_FILTER, GL_LINEAR), (GL_TEXTURE_MAG_FILTER, GL_LINEAR)],
      pending_params = []\<rparr>"

definition storage_texture :: "'f texture" where
  "storage_texture =
     \<lparr>target = GL_TEXTURE_2D, handle = 0, texunit = - 1,
      pending_data = Some (None, None, 0, None, None),
      texture_shape = Some [256, 256],
      texture_params = [(GL_TEXTURE_MIN_FILTER, GL_LINEAR), (GL_TEXTURE_MAG_FILTER, GL_LINEAR)],
      pending_params = [(GL_TEXTURE_MIN_FILTER, GL_LINEAR), (GL_TEXTURE_MAG_FILTER, GL_LINEAR)]\<rparr>"

text \<open>Used in the proofs about the heap: \<open>h'\<close> is \<open>h\<close> up to the buffer of the array at \<open>d\<close>.\<close>

definition only_buf_changed :: "'b heap \<Rightarrow> nat \<Rightarrow> 'b heap \<Rightarrow> bool" where
  "only_buf_changed h d h' \<longleftrightarrow> (\<exists>b. h' = h[d := (h ! d)\<lparr>buf := b\<rparr>])"

section \<open>Decimal strings and dtype names\<close>

lemma digit_of_digit_char: "d < 10 \<Longrightarrow> digit_of (digit_char d) = Some d"
  by (simp add: digit_of_def digit_char_def Let_def)

lemma parse_digits_append:
  "parse_digits acc (xs @ ys) = (case parse_digits acc xs of None \<Rightarrow> None | Some m \<Rightarrow> parse_digits m ys)"
  by (induction xs arbitrary: acc) (auto split: option.splits)

lemma parse_digits_str_nat: "parse_digits 0 (str_nat n) = Some n"
proof (induction n rule: str_nat.induct)
  case (1 n)
  show ?case
  proof (cases "n < 10")
    case True
    then show ?thesis
      by (subst str_nat.simps) (simp add: digit_of_digit_char)
  next
    case False
    with 1 have "parse_digits 0 (str_nat (n div 10)) = Some (n div 10)" by simp
    with False show ?thesis
      by (subst str_nat.simps) (simp add: parse_digits_append digit_of_digit_char)
  qed
qed

lemma str_nat_not_Nil: "str_nat n \<noteq> []"
  by (subst str_nat.simps) simp

lemma py_int_str_nat: "py_int (str_nat n) = Inr (int n)"
  by (simp add: py_int_def str_nat_not_Nil parse_digits_str_nat)

lemma str_nat_inj: "str_nat m = str_nat n \<Longrightarrow> m = n"
  by (metis parse_digits_str_nat option.inject)

lemma str_nat_8: "str_nat 8 = ''8''" by code_simp
lemma str_nat_16: "str_nat 16 = ''16''" by code_simp
lemma str_nat_32: "str_nat 32 = ''32''" by code_simp

lemma digits_str_nat: "c \<in> set (str_nat n) \<Longrightarrow> digit_of c \<noteq> None"
proof (induction n rule: str_nat.induct)
  case (1 n)
  show ?case
  proof (cases "n < 10")
    case True
    with "1.prems" show ?thesis
      by (subst (asm) str_nat.simps) (simp add: digit_of_digit_char)
  next
    case False
    with 1 show ?thesis
      by (subst (asm) (2) str_nat.simps) (auto simp add: digit_of_digit_char)
  qed
qed

lemma sublist_set: "sublist xs ys \<Longrightarrow> set xs \<subseteq> set ys"
  by (auto simp: sublist_def)

lemma f_not_digit: "digit_of CHR ''f'' = None" by (simp add: digit_of_def)

lemma not_sublist_float: "CHR ''f'' \<notin> set s \<Longrightarrow> \<not> sublist ''float'' s"
  using sublist_set [of "''float''" s] by auto

lemma f_notin_str_nat: "CHR ''f'' \<notin> set (str_nat n)"
  using digits_str_nat [of "CHR ''f''" n] by (auto simp: f_not_digit)

lemma name_eq_bool: "name t = ''bool'' \<longleftrightarrow> t = np_bool"
  by (cases t) simp_all

lemma name_eq_uint8: "name t = ''uint8'' \<longleftrightarrow> t = np_uint 8"
  using str_nat_inj [of _ 8] by (cases t) (auto simp: str_nat_8)

lemma name_eq_float16: "name t = ''float16'' \<longleftrightarrow> t = np_float 16"
  using str_nat_inj [of _ 16] by (cases t) (auto simp: str_nat_16)

lemma name_eq_float32: "name t = ''float32'' \<longleftrightarrow> t = np_float 32"
  using str_nat_inj [of _ 32] by (cases t) (auto simp: str_nat_32)

lemma sublist_float_name: "sublist ''float'' (name t) \<longleftrightarrow> (\<exists>b. t = np_float b)"
proof (cases t)
  case (np_float b)
  have "prefix ''float'' (''float'' @ str_nat b)" by (rule prefixI) simp
  then have "sublist ''float'' (''float'' @ str_nat b)" by (rule prefix_imp_sublist)
  with np_float show ?thesis by simp
qed (auto intro!: not_sublist_float simp: f_notin_str_nat)

lemma prefix_int_name: "prefix ''int'' (name t) \<longleftrightarrow> (\<exists>b. t = np_int b)"
  by (cases t) simp_all

lemma prefix_uint_name: "prefix ''uint'' (name t) \<longleftrightarrow> (\<exists>b. t = np_uint b)"
  by (cases t) simp_all

lemma drop_name_int: "drop 3 (name (np_int b)) = str_nat b" by simp
lemma drop_name_uint: "drop 4 (name (np_uint b)) = str_nat b" by simp


lemmas name_tests = name_eq_bool name_eq_uint8 name_eq_float16 name_eq_float32
  sublist_float_name prefix_int_name prefix_uint_name

lemma name_float32: "name (np_float 32) = ''float32''" by (simp add: str_nat_32)
lemma name_uint8: "name (np_uint 8) = ''uint8''" by (simp add: str_nat_8)

lemma prepare_bool:
  "dtype (h ! data) = np_bool \<Longrightarrow>
   convert_data_prepare rt ext h data clim =
     (fst (astype rt h data (np_uint 8)), Inr (length h, None, False))"
  by (simp add: convert_data_prepare_def Let_def name_tests astype_def del: name.simps)

lemma prepare_uint8:
  "dtype (h ! data) = np_uint 8 \<Longrightarrow>
   convert_data_prepare rt ext h data clim =
     (if clim \<noteq> None then (fst (astype rt h data (np_float 32)), Inr (length h, clim, False))
      else (h, Inr (data, clim, False)))"
  by (simp add: convert_data_prepare_def Let_def name_tests astype_def del: name.simps)

lemma prepare_float16:
  "dtype (h ! data) = np_float 16 \<Longrightarrow>
   convert_data_prepare rt ext h data clim =
     (if clim \<noteq> None then (h @ [h ! data], Inr (length h, clim, False))
      else if \<not> ext ''texture_half_float'' then (h @ [h ! data], Inr (length h, clim, True))
      else (h, Inr (data, clim, False)))"
  by (simp add: convert_data_prepare_def Let_def name_tests copy_def del: name.simps)

lemma prepare_float32:
  "dtype (h ! data) = np_float 32 \<Longrightarrow>
   convert_data_prepare rt ext h data clim =
     (if clim \<noteq> None then (h @ [h ! data], Inr (length h, clim, False))
      else if \<not> ext ''texture_float'' then (h @ [h ! data], Inr (length h, clim, True))
      else (h, Inr (data, clim, False)))"
  by (simp add: convert_data_prepare_def Let_def name_tests copy_def del: name.simps)

lemma prepare_float:
  "dtype (h ! data) = np_float b \<Longrightarrow> b \<noteq> 16 \<Longrightarrow> b \<noteq> 32 \<Longrightarrow>
   convert_data_prepare rt ext h data clim =
     (fst (astype rt h data (np_float 32)), Inr (length h, clim, True))"
  by (simp add: convert_data_prepare_def Let_def name_tests astype_def del: name.simps)

lemma prepare_int:
  "dtype (h ! data) = np_int b \<Longrightarrow>
   convert_data_prepare rt ext h data clim =
     (fst (astype rt h data (np_float 32)),
      Inr (length h,
           (if clim = None then Some (PyInt ((- (2 ^ b)) div 2), PyInt (2 ^ b div 2 - 1)) else clim),
           True))"
  by (simp add: convert_data_prepare_def Let_def name_tests astype_def py_int_str_nat
           del: name.simps add: drop_name_int)

lemma prepare_uint:
  "dtype (h ! data) = np_uint b \<Longrightarrow> b \<noteq> 8 \<Longrightarrow>
   convert_data_prepare rt ext h data clim =
     (fst (astype rt h data (np_float 32)),
      Inr (length h,
           (if clim = None then Some (PyInt 0, PyInt (2 ^ b div 2)) else clim),
           True))"
  by (simp add: convert_data_prepare_def Let_def name_tests astype_def py_int_str_nat
           del: name.simps add: drop_name_uint)

lemma prepare_unsupported:
  "\<not> supported (dtype (h ! data)) \<Longrightarrow>
   convert_data_prepare rt ext h data clim = (h, Inl RuntimeError)"
  by (cases "dtype (h ! data)")
     (simp_all add: convert_data_prepare_def Let_def name_tests del: name.simps)

section \<open>The parts of \<^verbatim>\<open>convert_data\<close>\<close>

lemma supported_cases:
  assumes "supported t"
  obtains "t = np_bool" | "t = np_uint 8" | "t = np_float 16" | "t = np_float 32"
    | b where "t = np_float b" "b \<noteq> 16" "b \<noteq> 32"
    | b where "t = np_int b"
    | b where "t = np_uint b" "b \<noteq> 8"
  using assms by (cases t) auto

text \<open>What the first part gives: either the argument itself, untouched, with no limits
  and of a kind that needs no copy, or a new array at the end of the heap, which is a
  copy of the argument or in native byte order.\<close>

lemma prepare_result:
  assumes "supported (dtype (h ! data))"
  shows "(convert_data_prepare rt ext h data clim = (h, Inr (data, None, False))
            \<and> direct_kind ext (dtype (h ! data)))
         \<or> (\<exists>x c conv. convert_data_prepare rt ext h data clim = (h @ [x], Inr (length h, c, conv))
               \<and> dtype x \<in> {np_uint 8, np_float 16, np_float 32}
               \<and> (x = h ! data \<or> \<not> byteswapped x))"
  using assms
proof (cases "dtype (h ! data)" rule: supported_cases)
  case 1
  then show ?thesis by (auto simp add: prepare_bool astype_def)
next
  case 2
  then show ?thesis by (cases clim) (auto simp add: prepare_uint8 astype_def direct_kind_def)
next
  case 3
  then show ?thesis by (cases clim) (auto simp add: prepare_float16 direct_kind_def)
next
  case 4
  then show ?thesis by (cases clim) (auto simp add: prepare_float32 direct_kind_def)
next
  case (5 b)
  then show ?thesis by (auto simp add: prepare_float astype_def)
next
  case (6 b)
  then show ?thesis by (auto simp add: prepare_int astype_def)
next
  case (7 b)
  then show ?thesis by (auto simp add: prepare_uint astype_def)
qed

lemma only_buf_changed_refl: "only_buf_changed h d h"
  unfolding only_buf_changed_def by (rule exI [of _ "buf (h ! d)"]) simp

lemma only_buf_changed_update:
  "only_buf_changed h d h' \<Longrightarrow> only_buf_changed h d (h'[d := (h' ! d)\<lparr>buf := b\<rparr>])"
  by (cases "d < length h") (auto simp: only_buf_changed_def not_less list_update_beyond)

lemma only_buf_changed_length: "only_buf_changed h d h' \<Longrightarrow> length h' = length h"
  by (auto simp: only_buf_changed_def)

lemma only_buf_changed_dtype: "only_buf_changed h d h' \<Longrightarrow> dtype (h' ! i) = dtype (h ! i)"
  by (cases "d < length h"; cases "i = d")
     (auto simp: only_buf_changed_def nth_list_update not_less list_update_beyond)

lemma only_buf_changed_byteswapped:
  "only_buf_changed h d h' \<Longrightarrow> byteswapped (h' ! i) = byteswapped (h ! i)"
  by (cases "d < length h"; cases "i = d")
     (auto simp: only_buf_changed_def nth_list_update not_less list_update_beyond)

lemma only_buf_changed_dtype_is:
  "only_buf_changed h d h' \<Longrightarrow> dtype_is (h' ! i) t = dtype_is (h ! i) t"
  by (simp add: dtype_is_def only_buf_changed_dtype only_buf_changed_byteswapped)

lemma only_buf_changed_shape: "only_buf_changed h d h' \<Longrightarrow> shape (h' ! i) = shape (h ! i)"
  by (cases "d < length h"; cases "i = d")
     (auto simp: only_buf_changed_def nth_list_update not_less list_update_beyond)

lemma only_buf_changed_take: "only_buf_changed h d h' \<Longrightarrow> n \<le> d \<Longrightarrow> take n h' = take n h"
  by (auto simp: only_buf_changed_def)

lemmas in_place_defs = imul_def imul256_def clip_low_def clip_high_def

lemma isub_heap: "isub rt h d x = Inr h1 \<Longrightarrow> only_buf_changed h d h1"
  using only_buf_changed_update [OF only_buf_changed_refl [of h d]]
  by (auto simp: isub_def split: sum.splits)

lemma py_sub_error: "py_sub rt x y = Inl e \<Longrightarrow> e = OverflowError"
  by (cases x; cases y) (auto split: option.splits)

lemma py_recip_error: "py_recip rt x = Inl e \<Longrightarrow> e = OverflowError \<or> e = ZeroDivisionError"
  by (cases x) (auto split: option.splits if_splits)

lemma apply_clim_None: "convert_data_apply_clim rt h d None = (h, Inr ())"
  by (simp add: convert_data_apply_clim_def)

lemma apply_clim_heap:
  "only_buf_changed h d (fst (convert_data_apply_clim rt h d clim))"
proof (cases clim)
  case None
  then show ?thesis by (simp add: apply_clim_None only_buf_changed_refl)
next
  case (Some p)
  obtain lo hi where p: "p = (lo, hi)" by (cases p)
  show ?thesis
  proof (cases "if py_ne0 rt lo then isub rt h d lo else Inr h")
    case (Inl e)
    with Some p show ?thesis
      by (simp add: convert_data_apply_clim_def only_buf_changed_refl)
  next
    case (Inr h1)
    have 1: "only_buf_changed h d h1"
      using Inr by (auto simp: only_buf_changed_refl dest: isub_heap split: if_splits)
    have 2: "only_buf_changed h d (imul rt h1 d x)" for x
      unfolding imul_def by (rule only_buf_changed_update [OF 1])
    have "fst (convert_data_apply_clim rt h d clim) = h1
          \<or> (\<exists>x. fst (convert_data_apply_clim rt h d clim) = imul rt h1 d x)"
      using Some p Inr
      by (auto simp: convert_data_apply_clim_def split: sum.splits)
    with 1 2 show ?thesis by auto
  qed
qed

text \<open>An exception of the second part is raised by the in-place subtraction or by the
  Python arithmetic on the limits.\<close>

lemma apply_clim_error:
  assumes "snd (convert_data_apply_clim rt h d clim) = Inl e"
  shows "(\<exists>lo hi. clim = Some (lo, hi) \<and> py_ne0 rt lo \<and> isub rt h d lo = Inl e)
         \<or> e = ZeroDivisionError \<or> e = OverflowError"
  using assms
  by (auto simp: convert_data_apply_clim_def
           split: option.splits prod.splits sum.splits if_splits
           dest: py_sub_error py_recip_error)

text \<open>The last part on an array whose dtype is one of the three it knows: it passes the
  array on, or it converts it to a new \<^verbatim>\<open>uint8\<close> array.\<close>

lemma finalize_result:
  assumes "d < length h"
    and "dtype_is (h ! d) (np_uint 8) \<or> dtype_is (h ! d) (np_float 16)
           \<or> dtype_is (h ! d) (np_float 32)"
  shows "(convert_data_finalize rt ext h d = (h, Inr d) \<and> uploadable ext (h ! d))
         \<or> (\<exists>h' x. convert_data_finalize rt ext h d = (h' @ [x], Inr (length h))
               \<and> only_buf_changed h d h' \<and> dtype x = np_uint 8)"
proof (cases "uploadable ext (h ! d)")
  case True
  then show ?thesis
    by (auto simp: convert_data_finalize_def uploadable_def Let_def)
next
  case False
  let ?h3 = "clip_high rt (clip_low rt (imul256 rt h d) d) d"
  have "only_buf_changed h d ?h3"
    unfolding in_place_defs
    by (intro only_buf_changed_update only_buf_changed_refl)
  moreover have "convert_data_finalize rt ext h d =
      (?h3 @ [\<lparr>dtype = np_uint 8, byteswapped = False, shape = shape (?h3 ! d),
               buf = np_astype rt (name (dtype (?h3 ! d))) (name (np_uint 8)) (buf (?h3 ! d))\<rparr>],
       Inr (length h))"
    using False assms
    by (auto simp: convert_data_finalize_def uploadable_def Let_def astype_def in_place_defs)
  ultimately show ?thesis by auto
qed

text \<open>The last part on any array: the heap stays as it is, unless the array is
  converted, which a kind that needs no copy never is.\<close>

lemma finalize_heap:
  "fst (convert_data_finalize rt ext h d) = h
   \<or> (\<exists>h' x. fst (convert_data_finalize rt ext h d) = h' @ [x]
         \<and> only_buf_changed h d h' \<and> \<not> direct_kind ext (dtype (h ! d)))"
proof -
  let ?h3 = "clip_high rt (clip_low rt (imul256 rt h d) d) d"
  have "only_buf_changed h d ?h3"
    unfolding in_place_defs
    by (intro only_buf_changed_update only_buf_changed_refl)
  then show ?thesis
    by (auto simp: convert_data_finalize_def Let_def astype_def direct_kind_def dtype_is_def)
qed

text \<open>A \<^verbatim>\<open>float16\<close> or \<^verbatim>\<open>float32\<close> array that is not in native byte order reaches the last
  \<^verbatim>\<open>raise\<close> of \<^verbatim>\<open>convert_data\<close> ("This should not happen"), with or without limits unless
  applying them raises first.\<close>

lemma finalize_byteswapped_float:
  assumes "byteswapped (h ! d)" and "dtype (h ! d) \<in> {np_float 16, np_float 32}"
  shows "convert_data_finalize rt ext h d = (h, Inl RuntimeError)"
  using assms by (auto simp: convert_data_finalize_def dtype_is_def Let_def)

lemma convert_data_byteswapped_float:
  assumes "byteswapped (h ! data)" and "dtype (h ! data) \<in> {np_float 16, np_float 32}"
  shows "convert_data rt ext h data None =
           (if direct_kind ext (dtype (h ! data)) then (h, Inl RuntimeError)
            else (h @ [h ! data], Inl RuntimeError))"
proof -
  have 1: "convert_data_finalize rt ext (h @ [h ! data]) (length h) =
          (h @ [h ! data], Inl RuntimeError)"
    using assms by (intro finalize_byteswapped_float) simp_all
  have 2: "convert_data_finalize rt ext h data = (h, Inl RuntimeError)"
    using assms by (rule finalize_byteswapped_float)
  from assms(2) consider "dtype (h ! data) = np_float 16" | "dtype (h ! data) = np_float 32"
    by auto
  then show ?thesis
  proof cases
    case 1
    with \<open>convert_data_finalize rt ext (h @ [h ! data]) (length h) = _\<close> 2 show ?thesis
      by (cases "ext ''texture_half_float''")
         (simp_all add: convert_data_def prepare_float16 apply_clim_None direct_kind_def)
  next
    case 2
    with \<open>convert_data_finalize rt ext (h @ [h ! data]) (length h) = _\<close>
      \<open>convert_data_finalize rt ext h data = _\<close> show ?thesis
      by (cases "ext ''texture_float''")
         (simp_all add: convert_data_def prepare_float32 apply_clim_None direct_kind_def)
  qed
qed

text \<open>An \<^verbatim>\<open>uint8\<close> array without limits goes through all three parts untouched.\<close>

lemma convert_data_uint8_None:
  "dtype (h ! data) = np_uint 8 \<Longrightarrow> convert_data rt ext h data None = (h, Inr data)"
  by (simp add: convert_data_def prepare_uint8 apply_clim_None convert_data_finalize_def
        dtype_is_def Let_def)

section \<open>Properties of \<^verbatim>\<open>convert_data\<close>\<close>

text \<open>Half of a power of two, for the derived limits.\<close>

lemma pow2_div2: "0 < b \<Longrightarrow> (2::int) ^ b div 2 = 2 ^ (b - 1)"
  by (cases b) simp_all

text \<open>
  Claim C1, amended. For an array of an unsigned integer kind of bit width \<open>b\<close> other
  than 8 (and at least 1) and no contrast limits, the first part of \<^verbatim>\<open>convert_data\<close>
  binds \<^verbatim>\<open>data\<close> to a new \<^verbatim>\<open>float32\<close> array cast from the argument and derives the
  limits \<open>(0, 2 ^ (b - 1))\<close>; the limits are then applied to that new array, and the
  last part runs on it.
\<close>

theorem convert_data_uint_limits:
  assumes "dtype (h ! data) = np_uint b" and "b \<noteq> 8" and "0 < b"
  shows "convert_data_prepare rt ext h data None =
           (h @ [\<lparr>dtype = np_float 32, byteswapped = False, shape = shape (h ! data),
                   buf = np_astype rt (name (np_uint b)) ''float32'' (buf (h ! data))\<rparr>],
            Inr (length h, Some (PyInt 0, PyInt (2 ^ (b - 1))), True))
         \<and> convert_data rt ext h data None =
             (case convert_data_apply_clim rt
                     (h @ [\<lparr>dtype = np_float 32, byteswapped = False, shape = shape (h ! data),
                             buf = np_astype rt (name (np_uint b)) ''float32'' (buf (h ! data))\<rparr>])
                     (length h) (Some (PyInt 0, PyInt (2 ^ (b - 1)))) of
                (h2, Inl e) \<Rightarrow> (h2, Inl e)
              | (h2, Inr u) \<Rightarrow> convert_data_finalize rt ext h2 (length h))"
proof -
  have 1: "convert_data_prepare rt ext h data None =
           (h @ [\<lparr>dtype = np_float 32, byteswapped = False, shape = shape (h ! data),
                   buf = np_astype rt (name (np_uint b)) ''float32'' (buf (h ! data))\<rparr>],
            Inr (length h, Some (PyInt 0, PyInt (2 ^ (b - 1))), True))"
    using assms by (simp add: prepare_uint astype_def pow2_div2 name_float32 del: name.simps)
  show ?thesis
    unfolding convert_data_def 1 by simp
qed

theorem convert_data_uint_limits_witness:
  "convert_data_prepare ideal_runtime ext_available
      [\<lparr>dtype = np_uint 16, byteswapped = False, shape = [2, 2], buf = [0, 255, 3, 4]\<rparr>] 0 None =
     ([\<lparr>dtype = np_uint 16, byteswapped = False, shape = [2, 2], buf = [0, 255, 3, 4]\<rparr>,
       \<lparr>dtype = np_float 32, byteswapped = False, shape = [2, 2], buf = [0, 255, 3, 4]\<rparr>],
      Inr (1, Some (PyInt 0, PyInt 32768), True))"
  using convert_data_uint_limits
          [of "[\<lparr>dtype = np_uint 16, byteswapped = False, shape = [2, 2], buf = [0, 255, 3, 4]\<rparr>]" 0 16
              ideal_runtime ext_available]
  by (simp add: ideal_runtime_def)

text \<open>
  Claim C1 as stated fails at bit width 8: the branch for \<^verbatim>\<open>uint8\<close> comes first in the
  chain, derives no limits (they stay \<^verbatim>\<open>None\<close>, not \<open>(0, 128)\<close>) and makes no cast (the
  reference is still the argument, an \<^verbatim>\<open>uint8\<close> array).
\<close>

theorem convert_data_uint8_no_limits:
  "convert_data_prepare ideal_runtime ext_available
      [\<lparr>dtype = np_uint 8, byteswapped = False, shape = [2, 2], buf = [0, 255, 3, 4]\<rparr>] 0 None =
     ([\<lparr>dtype = np_uint 8, byteswapped = False, shape = [2, 2], buf = [0, 255, 3, 4]\<rparr>], Inr (0, None, False))"
  by (simp add: prepare_uint8)

text \<open>
  Claim C5, amended. Take an array of a supported element kind, \<^verbatim>\<open>float16\<close> and \<^verbatim>\<open>float32\<close>
  arrays that are not in native byte order left aside, and any contrast limits. The
  first part of \<^verbatim>\<open>convert_data\<close> never raises, and then there are two outcomes only.
  Either applying the limits in effect raises, and this is what \<^verbatim>\<open>convert_data\<close> raises:
  the exception of the in-place subtraction \<^verbatim>\<open>data -= clim[0]\<close>, or ZeroDivisionError or
  OverflowError from \<^verbatim>\<open>1.0 / (clim[1]-clim[0])\<close>. Or \<^verbatim>\<open>convert_data\<close> returns an array whose
  dtype is \<^verbatim>\<open>uint8\<close>, \<^verbatim>\<open>float16\<close> with the half-float capability available, or \<^verbatim>\<open>float32\<close>
  with the float capability available.
\<close>

theorem convert_data_result_kind:
  assumes "data < length h" and "supported (dtype (h ! data))"
    and "\<not> (byteswapped (h ! data) \<and> dtype (h ! data) \<in> {np_float 16, np_float 32})"
  shows "\<exists>h1 d clim' conv.
           convert_data_prepare rt ext h data clim = (h1, Inr (d, clim', conv))
           \<and> (case convert_data_apply_clim rt h1 d clim' of
                 (h2, Inl e) \<Rightarrow>
                   convert_data rt ext h data clim = (h2, Inl e) \<and> clim' \<noteq> None
                   \<and> (e \<in> {ZeroDivisionError, OverflowError}
                        \<or> (\<exists>lo hi. clim' = Some (lo, hi) \<and> py_ne0 rt lo
                              \<and> isub rt h1 d lo = Inl e))
               | (h2, Inr u) \<Rightarrow>
                   (\<exists>h3 r. convert_data rt ext h data clim = (h3, Inr r)
                      \<and> r < length h3 \<and> uploadable ext (h3 ! r)))"
proof -
  from prepare_result [OF assms(2), of rt ext clim]
  consider
    (same) "convert_data_prepare rt ext h data clim = (h, Inr (data, None, False))"
           "direct_kind ext (dtype (h ! data))"
  | (new) x c conv where
      "convert_data_prepare rt ext h data clim = (h @ [x], Inr (length h, c, conv))"
      "dtype x \<in> {np_uint 8, np_float 16, np_float 32}"
      "x = h ! data \<or> \<not> byteswapped x"
    by blast
  then show ?thesis
  proof cases
    case same
    have up: "uploadable ext (h ! data)"
      using same(2) assms(3) by (auto simp: direct_kind_def uploadable_def dtype_is_def)
    then have "convert_data rt ext h data clim = (h, Inr data)"
      using same(1)
      by (auto simp: convert_data_def apply_clim_None convert_data_finalize_def uploadable_def
            Let_def)
    with same up assms(1) show ?thesis
      by (auto simp add: apply_clim_None)
  next
    case new
    let ?h1 = "h @ [x]" and ?d = "length h"
    obtain h2 r2 where ap: "convert_data_apply_clim rt ?h1 ?d c = (h2, r2)"
      by (cases "convert_data_apply_clim rt ?h1 ?d c")
    have obc: "only_buf_changed ?h1 ?d h2"
      using apply_clim_heap [of ?h1 ?d rt c] ap by simp
    have len: "length h2 = Suc (length h)"
      using only_buf_changed_length [OF obc] by simp
    have "dtype_is x (np_uint 8) \<or> dtype_is x (np_float 16) \<or> dtype_is x (np_float 32)"
      using new(2,3) assms(3) by (auto simp: dtype_is_def)
    then have dt: "dtype_is (h2 ! ?d) (np_uint 8) \<or> dtype_is (h2 ! ?d) (np_float 16)
                     \<or> dtype_is (h2 ! ?d) (np_float 32)"
      by (simp add: only_buf_changed_dtype_is [OF obc, of ?d])
    show ?thesis
    proof (cases r2)
      case (Inl e)
      have "(\<exists>lo hi. c = Some (lo, hi) \<and> py_ne0 rt lo \<and> isub rt ?h1 ?d lo = Inl e)
              \<or> e = ZeroDivisionError \<or> e = OverflowError"
        using apply_clim_error [of rt ?h1 ?d c e] ap Inl by simp
      moreover have "c \<noteq> None"
        using ap Inl by (cases c) (auto simp: apply_clim_None)
      ultimately show ?thesis
        using new(1) ap Inl by (auto simp: convert_data_def)
    next
      case (Inr u)
      have conv: "convert_data rt ext h data clim = convert_data_finalize rt ext h2 ?d"
        using new(1) ap Inr by (simp add: convert_data_def)
      from finalize_result [of ?d h2 rt ext] len dt
      consider "convert_data_finalize rt ext h2 ?d = (h2, Inr ?d)"
               "uploadable ext (h2 ! ?d)"
        | h' y where "convert_data_finalize rt ext h2 ?d = (h' @ [y], Inr (length h2))"
                     "only_buf_changed h2 ?d h'" "dtype y = np_uint 8"
        by auto
      then have "\<exists>h3 r. convert_data_finalize rt ext h2 ?d = (h3, Inr r)
                \<and> r < length h3 \<and> uploadable ext (h3 ! r)"
      proof cases
        case 1
        with len show ?thesis by simp
      next
        case 2
        have "length h' = length h2"
          using only_buf_changed_length [OF 2(2)] .
        then have "(h' @ [y]) ! length h2 = y" "length h2 < length (h' @ [y])"
          by (simp_all add: nth_append)
        with 2(1,3) show ?thesis
          by (simp add: uploadable_def dtype_is_def)
      qed
      with conv new(1) ap Inr show ?thesis by simp
    qed
  qed
qed

theorem convert_data_result_kind_witness:
  "0 < length [\<lparr>dtype = np_float 16, byteswapped = False, shape = [2], buf = [1 / 2, 3 :: rat]\<rparr>]
   \<and> supported (dtype ([\<lparr>dtype = np_float 16, byteswapped = False, shape = [2],
                           buf = [1 / 2, 3 :: rat]\<rparr>] ! 0))
   \<and> (\<exists>h1 d clim' conv.
         convert_data_prepare ideal_runtime (\<lambda>c. False)
           [\<lparr>dtype = np_float 16, byteswapped = False, shape = [2], buf = [1 / 2, 3]\<rparr>] 0
           (Some (PyInt 1, PyInt 3))
           = (h1, Inr (d, clim', conv))
         \<and> (case convert_data_apply_clim ideal_runtime h1 d clim' of
               (h2, Inl e) \<Rightarrow>
                 convert_data ideal_runtime (\<lambda>c. False)
                   [\<lparr>dtype = np_float 16, byteswapped = False, shape = [2], buf = [1 / 2, 3]\<rparr>] 0
                   (Some (PyInt 1, PyInt 3)) = (h2, Inl e)
                 \<and> clim' \<noteq> None
                 \<and> (e \<in> {ZeroDivisionError, OverflowError}
                      \<or> (\<exists>lo hi. clim' = Some (lo, hi) \<and> py_ne0 ideal_runtime lo
                            \<and> isub ideal_runtime h1 d lo = Inl e))
             | (h2, Inr u) \<Rightarrow>
                 (\<exists>h3 r. convert_data ideal_runtime (\<lambda>c. False)
                            [\<lparr>dtype = np_float 16, byteswapped = False, shape = [2],
                              buf = [1 / 2, 3]\<rparr>] 0
                            (Some (PyInt 1, PyInt 3)) = (h3, Inr r)
                    \<and> r < length h3 \<and> uploadable (\<lambda>c. False) (h3 ! r))))"
proof -
  let ?h = "[\<lparr>dtype = np_float 16, byteswapped = False, shape = [2], buf = [1 / 2, 3 :: rat]\<rparr>]"
  have 1: "0 < length ?h" by simp
  have 2: "supported (dtype (?h ! 0))" by simp
  have 3: "\<not> (byteswapped (?h ! 0) \<and> dtype (?h ! 0) \<in> {np_float 16, np_float 32})" by simp
  from convert_data_result_kind [OF 1 2 3, of ideal_runtime "\<lambda>c. False" "Some (PyInt 1, PyInt 3)"]
  show ?thesis using 1 2 by blast
qed

text \<open>
  Claim C5 as stated fails for limits of span zero: on an \<^verbatim>\<open>uint8\<close> array with the limits
  \<open>(1, 1)\<close> the function casts, subtracts 1 and raises ZeroDivisionError at
  \<^verbatim>\<open>1.0 / (clim[1]-clim[0])\<close>; no array is returned.
\<close>

theorem convert_data_zero_span_raises:
  "convert_data ideal_runtime ext_available
     [\<lparr>dtype = np_uint 8, byteswapped = False, shape = [2], buf = [0, 255]\<rparr>] 0
     (Some (PyInt 1, PyInt 1))
   = ([\<lparr>dtype = np_uint 8, byteswapped = False, shape = [2], buf = [0, 255]\<rparr>,
       \<lparr>dtype = np_float 32, byteswapped = False, shape = [2], buf = [- 1, 254]\<rparr>],
      Inl ZeroDivisionError)"
  by (simp add: convert_data_def prepare_uint8 convert_data_apply_clim_def
        ideal_runtime_def isub_def in_place_defs astype_def Let_def)

text \<open>
  Claim C9. For an array of kind \<^verbatim>\<open>uint8\<close> and no contrast limits, \<^verbatim>\<open>convert_data\<close>
  returns the reference it was given and leaves the heap as it was: the result is the
  same array, no copy is made and no arithmetic touches any buffer. This holds for
  every runtime and every capability query.
\<close>

theorem convert_data_uint8_passthrough:
  assumes "dtype (h ! data) = np_uint 8"
  shows "convert_data rt ext h data None = (h, Inr data)"
  using assms by (rule convert_data_uint8_None)

theorem convert_data_uint8_passthrough_witness:
  "dtype ([\<lparr>dtype = np_uint 8, byteswapped = False, shape = [2, 2], buf = [0, 255, 3, 4]\<rparr>] ! 0) = np_uint 8
   \<and> convert_data ideal_runtime ext_available
        [\<lparr>dtype = np_uint 8, byteswapped = False, shape = [2, 2], buf = [0, 255, 3, 4]\<rparr>] 0 None
      = ([\<lparr>dtype = np_uint 8, byteswapped = False, shape = [2, 2], buf = [0, 255, 3, 4]\<rparr>], Inr 0)"
  using convert_data_uint8_passthrough
          [of "[\<lparr>dtype = np_uint 8, byteswapped = False, shape = [2, 2], buf = [0, 255, 3, 4]\<rparr>]" 0
              ideal_runtime ext_available]
  by simp

text \<open>The heap after \<^verbatim>\<open>convert_data\<close> extends the heap before it: whatever the outcome,
  every array that existed before the call is as it was.\<close>

lemma prefix_nth: "prefix h h' \<Longrightarrow> i < length h \<Longrightarrow> h' ! i = h ! i"
  by (auto simp: prefix_def nth_append)

lemma convert_data_heap_prefix: "prefix h (fst (convert_data rt ext h data clim))"
proof (cases "supported (dtype (h ! data))")
  case False
  then show ?thesis
    by (simp add: convert_data_def prepare_unsupported)
next
  case True
  from prepare_result [OF True, of rt ext clim]
  consider
    (same) "convert_data_prepare rt ext h data clim = (h, Inr (data, None, False))"
           "direct_kind ext (dtype (h ! data))"
  | (new) x c conv where
      "convert_data_prepare rt ext h data clim = (h @ [x], Inr (length h, c, conv))"
    by blast
  then show ?thesis
  proof cases
    case same
    have "fst (convert_data rt ext h data clim) = fst (convert_data_finalize rt ext h data)"
      using same(1) by (simp add: convert_data_def apply_clim_None)
    with finalize_heap [of rt ext h data] same(2) show ?thesis
      by auto
  next
    case new
    let ?h1 = "h @ [x]" and ?d = "length h"
    obtain h2 r2 where ap: "convert_data_apply_clim rt ?h1 ?d c = (h2, r2)"
      by (cases "convert_data_apply_clim rt ?h1 ?d c")
    have obc: "only_buf_changed ?h1 ?d h2"
      using apply_clim_heap [of ?h1 ?d rt c] ap by simp
    have tk: "take (length h) h2 = h"
      using only_buf_changed_take [OF obc, of "length h"] by simp
    show ?thesis
    proof (cases r2)
      case (Inl e)
      then have "fst (convert_data rt ext h data clim) = h2"
        using new(1) ap by (simp add: convert_data_def)
      with tk show ?thesis by (metis take_is_prefix)
    next
      case (Inr u)
      have conv: "convert_data rt ext h data clim = convert_data_finalize rt ext h2 ?d"
        using new(1) ap Inr by (simp add: convert_data_def)
      from finalize_heap [of rt ext h2 ?d]
      consider "fst (convert_data_finalize rt ext h2 ?d) = h2"
        | h' y where "fst (convert_data_finalize rt ext h2 ?d) = h' @ [y]"
                     "only_buf_changed h2 ?d h'"
        by auto
      then show ?thesis
      proof cases
        case 1
        with conv tk show ?thesis by (metis take_is_prefix)
      next
        case 2
        have "take (length h) h' = h"
          using only_buf_changed_take [OF 2(2), of "length h"] tk by simp
        then have "prefix h (h' @ [y])"
          by (metis prefix_prefix take_is_prefix)
        with conv 2(1) show ?thesis by simp
      qed
    qed
  qed
qed

text \<open>
  Claim C10. \<^verbatim>\<open>convert_data\<close> never modifies the array it is given: for every
  runtime, capability query, array and contrast limits, and whether the call returns
  or raises, the heap before the call is a prefix of the heap after it, so the
  argument is unchanged and every in-place update went to an array allocated during
  the call (by \<^verbatim>\<open>astype\<close> or \<^verbatim>\<open>copy\<close>).
\<close>

theorem convert_data_input_untouched:
  assumes "data < length h"
  shows "prefix h (fst (convert_data rt ext h data clim))
         \<and> fst (convert_data rt ext h data clim) ! data = h ! data"
  using assms convert_data_heap_prefix [of h rt ext data clim]
  by (simp add: prefix_nth)

theorem convert_data_input_untouched_witness:
  "0 < length [\<lparr>dtype = np_float 16, byteswapped = False, shape = [2], buf = [1 / 2, 3 :: rat]\<rparr>]
   \<and> prefix [\<lparr>dtype = np_float 16, byteswapped = False, shape = [2], buf = [1 / 2, 3]\<rparr>]
        (fst (convert_data ideal_runtime (\<lambda>c. False)
                [\<lparr>dtype = np_float 16, byteswapped = False, shape = [2], buf = [1 / 2, 3]\<rparr>] 0
                (Some (PyInt 1, PyInt 3))))
   \<and> fst (convert_data ideal_runtime (\<lambda>c. False)
            [\<lparr>dtype = np_float 16, byteswapped = False, shape = [2], buf = [1 / 2, 3]\<rparr>] 0
            (Some (PyInt 1, PyInt 3))) ! 0
       = \<lparr>dtype = np_float 16, byteswapped = False, shape = [2], buf = [1 / 2, 3]\<rparr>"
  using convert_data_input_untouched
          [of 0 "[\<lparr>dtype = np_float 16, byteswapped = False, shape = [2], buf = [1 / 2, 3 :: rat]\<rparr>]"
              ideal_runtime "\<lambda>c. False" "Some (PyInt 1, PyInt 3)"]
  by simp

section \<open>Properties of \<^verbatim>\<open>push_enable\<close> and \<^verbatim>\<open>pop_enable\<close>\<close>

lemma counter_push_enable:
  "counter (push_enable w enum) e = (if e = enum then counter w enum + 1 else counter w e)"
  by (simp add: push_enable_def counter_def dict_get_def call_def Let_def)

lemma counter_pop_enable:
  "counter (pop_enable w enum) e = (if e = enum then max 0 (counter w enum - 1) else counter w e)"
  by (simp add: pop_enable_def counter_def dict_get_def call_def Let_def)

lemma gl_calls_push_enable:
  "gl_calls (push_enable w enum) =
     gl_calls w @ (if counter w enum = 0 then [glEnable enum] else [])"
  by (simp add: push_enable_def counter_def call_def Let_def)

lemma gl_calls_pop_enable:
  "gl_calls (pop_enable w enum) =
     gl_calls w @ (if counter w enum = 1 then [glDisable enum] else [])"
  by (simp add: pop_enable_def counter_def call_def Let_def)

lemma run_queue_ops_append:
  "run_queue_ops w (xs @ ys) = run_queue_ops (run_queue_ops w xs) ys"
  by (induction w xs rule: run_queue_ops.induct) simp_all

lemma counter_nonneg: "0 \<le> counter w e \<Longrightarrow> 0 \<le> counter (run_queue_ops w ops) e"
proof (induction ops arbitrary: w)
  case Nil
  then show ?case by simp
next
  case (Cons x ops)
  show ?case
  proof (cases x)
    case (Push enum)
    have "0 \<le> counter (push_enable w enum) e"
      using Cons.prems by (auto simp: counter_push_enable)
    from Cons.IH [OF this] Push show ?thesis by simp
  next
    case (Pop enum)
    have "0 \<le> counter (pop_enable w enum) e"
      using Cons.prems by (auto simp: counter_pop_enable)
    from Cons.IH [OF this] Pop show ?thesis by simp
  qed
qed

lemma pushes:
  "0 \<le> counter w enum \<Longrightarrow>
   counter (run_queue_ops w (replicate n (Push enum))) enum = counter w enum + int n
   \<and> gl_calls (run_queue_ops w (replicate n (Push enum))) =
       gl_calls w @ (if counter w enum = 0 \<and> 0 < n then [glEnable enum] else [])"
  by (induction n arbitrary: w)
     (auto simp: counter_push_enable gl_calls_push_enable)

lemma pops:
  "0 \<le> counter w enum \<Longrightarrow>
   counter (run_queue_ops w (replicate m (Pop enum))) enum = max 0 (counter w enum - int m)
   \<and> gl_calls (run_queue_ops w (replicate m (Pop enum))) =
       gl_calls w @ (if 1 \<le> counter w enum \<and> counter w enum \<le> int m then [glDisable enum] else [])"
  by (induction m arbitrary: w)
     (auto simp: counter_pop_enable gl_calls_pop_enable)

text \<open>
  Claim C7. From a counter at 0 (as in the module's initial \<^verbatim>\<open>ENABLE_QUEUE = {}\<close>), for
  every capability and every \<open>N \<ge> 1\<close>: \<open>N\<close> calls of \<^verbatim>\<open>push_enable\<close> followed by \<open>N\<close>
  calls of \<^verbatim>\<open>pop_enable\<close> leave the counter at 0 and make exactly two driver calls,
  one \<^verbatim>\<open>glEnable\<close> and one \<^verbatim>\<open>glDisable\<close>; the \<^verbatim>\<open>glEnable\<close> is made by the first push and
  is the only call of the \<open>N\<close> pushes, and no \<^verbatim>\<open>glDisable\<close> is made by fewer than \<open>N\<close>
  pops. With at least as many pops as pushes the counter ends at 0, and after any
  sequence of pushes and pops, on any capabilities, the counter is not negative.
\<close>

theorem push_pop_balanced:
  assumes "counter w enum = 0" and "1 \<le> N"
  shows "counter (run_queue_ops w (replicate N (Push enum) @ replicate N (Pop enum))) enum = 0
       \<and> gl_calls (run_queue_ops w (replicate N (Push enum) @ replicate N (Pop enum))) =
           gl_calls w @ [glEnable enum, glDisable enum]
       \<and> gl_calls (push_enable w enum) = gl_calls w @ [glEnable enum]
       \<and> gl_calls (run_queue_ops w (replicate N (Push enum))) = gl_calls w @ [glEnable enum]
       \<and> (k < N \<longrightarrow>
            gl_calls (run_queue_ops w (replicate N (Push enum) @ replicate k (Pop enum))) =
              gl_calls w @ [glEnable enum])
       \<and> (N \<le> M \<longrightarrow>
            counter (run_queue_ops w (replicate N (Push enum) @ replicate M (Pop enum))) enum = 0)
       \<and> 0 \<le> counter (run_queue_ops w ops) enum"
proof -
  let ?w = "run_queue_ops w (replicate N (Push enum))"
  from pushes [of w enum N] assms
  have p: "counter ?w enum = int N" "gl_calls ?w = gl_calls w @ [glEnable enum]"
    by simp_all
  have q: "counter (run_queue_ops ?w (replicate m (Pop enum))) enum = max 0 (int N - int m)"
    "gl_calls (run_queue_ops ?w (replicate m (Pop enum))) =
       gl_calls w @ [glEnable enum] @ (if N \<le> m then [glDisable enum] else [])" for m
    using pops [of ?w enum m] p assms(2) by simp_all
  show ?thesis
    using assms p q [of N] q [of k] q [of M] counter_nonneg [of w enum ops]
    by (simp add: run_queue_ops_append gl_calls_push_enable)
qed

theorem push_pop_balanced_witness:
  "counter (empty_world ([] :: rat list heap)) GL_TEXTURE_2D = 0 \<and> (1::nat) \<le> 2
   \<and> counter (run_queue_ops (empty_world ([] :: rat list heap))
        [Push GL_TEXTURE_2D, Push GL_TEXTURE_2D, Pop GL_TEXTURE_2D, Pop GL_TEXTURE_2D])
        GL_TEXTURE_2D = 0
   \<and> gl_calls (run_queue_ops (empty_world ([] :: rat list heap))
        [Push GL_TEXTURE_2D, Push GL_TEXTURE_2D, Pop GL_TEXTURE_2D, Pop GL_TEXTURE_2D])
       = [glEnable GL_TEXTURE_2D, glDisable GL_TEXTURE_2D]
   \<and> gl_calls (run_queue_ops (empty_world ([] :: rat list heap))
        [Push GL_TEXTURE_2D, Push GL_TEXTURE_2D, Pop GL_TEXTURE_2D])
       = [glEnable GL_TEXTURE_2D]
   \<and> counter (run_queue_ops (empty_world ([] :: rat list heap))
        [Push GL_TEXTURE_2D, Push GL_TEXTURE_2D, Pop GL_TEXTURE_2D, Pop GL_TEXTURE_2D,
         Pop GL_TEXTURE_2D]) GL_TEXTURE_2D = 0"
proof -
  have 1: "counter (empty_world ([] :: rat list heap)) GL_TEXTURE_2D = 0"
    by (simp add: counter_def empty_world_def dict_get_def)
  have 2: "(1::nat) \<le> 2" by simp
  have r: "replicate 2 x = [x, x]" "replicate 3 x = [x, x, x]" "replicate 1 x = [x]" for x :: queue_op
    by (simp_all add: numeral_2_eq_2 numeral_3_eq_3)
  from push_pop_balanced [OF 1 2, of 1 3 "[]"] 1 show ?thesis
    by (simp add: r empty_world_def)
qed

section \<open>Properties of the texture state machine\<close>

subsection \<open>Running the functions\<close>

text \<open>The example textures are states the functions reach.\<close>

lemmas texture_defs = Texture_init_def set_parameter_def set_data_def set_storage_def
  reset_if_error_def valid_format_def MAP_def dict_get_def Texture_enable_def
  enable_update_data_def process_pending_data_def get_format_def GLObject_delete_def
  RawTexture_create_def RawTexture_allocate_def RawTexture_upload_def RawTexture_update_def
  RawTexture_enable_def RawTexture_delete_def get_size_and_type_def DTYPES_def
  get_alignment_def push_enable_def call_def empty_world_def

lemma errored_texture_reached:
  "(case Texture_init ([] :: rat list heap) GL_TEXTURE_2D (Shape [4, 4]) None None of
      Inr t \<Rightarrow> fst (snd (Texture_enable ideal_runtime ext_available lost_driver (empty_world []) t)))
   = (errored_texture :: rat texture)"
  by (simp add: texture_defs lost_driver_def errored_texture_def Let_def)

lemma resident_texture_reached:
  "(case Texture_init rgb_heap GL_TEXTURE_2D (Array 0) None None of
      Inr t \<Rightarrow> fst (snd (Texture_enable ideal_runtime ext_available counting_driver (empty_world rgb_heap) t)))
   = (resident_texture :: rat texture)"
  by (simp add: texture_defs counting_driver_def resident_texture_def rgb_heap_def Let_def
       convert_data_uint8_None name_uint8 str_nat_8 flush_pending_params.simps)

lemma storage_texture_reached:
  "Texture_init ([] :: rat list heap) GL_TEXTURE_2D (Shape [256, 256]) None None =
     Inr (storage_texture :: rat texture)"
  by (simp add: texture_defs storage_texture_def Let_def)

subsection \<open>The error state\<close>

lemma handle_reset_if_error: "handle t < 0 \<Longrightarrow> handle (reset_if_error t) = 0"
  by (simp add: reset_if_error_def)

lemma reset_if_error_id: "0 \<le> handle t \<Longrightarrow> reset_if_error t = t"
  by (simp add: reset_if_error_def)

lemma handle_set_data:
  "handle (fst (set_data h t data offset level format clim)) = handle (reset_if_error t)"
  by (simp add: set_data_def Let_def split: option.splits sum.splits)

lemma handle_set_storage:
  "handle (fst (set_storage t shp level format)) = handle (reset_if_error t)"
  by (simp add: set_storage_def Let_def)

lemma Texture_enable_error: "handle t < 0 \<Longrightarrow> Texture_enable rt ext drv w t = (w, t, Inr ())"
  by (simp add: Texture_enable_def)

text \<open>
  Claim C2, amended. For a texture in the error state (negative handle), \<^verbatim>\<open>set_data\<close>
  and \<^verbatim>\<open>set_storage\<close> clear the error: the handle is 0 after the call, whatever the
  arguments and whether the call returns or raises. Activation does not reset a
  negative handle: it returns with the world and the texture as they were.
\<close>

theorem set_data_clears_error:
  assumes "handle t < 0"
  shows "handle (fst (set_data h t data offset level format clim)) = 0
         \<and> handle (fst (set_storage t shp level format)) = 0
         \<and> Texture_enable rt ext drv w t = (w, t, Inr ())"
  using assms
  by (simp add: handle_set_data handle_set_storage handle_reset_if_error Texture_enable_error)

theorem set_data_clears_error_witness:
  "handle (errored_texture :: rat texture) < 0
   \<and> handle (fst (set_data rgb_heap (errored_texture :: rat texture) 0 None 0 None None)) = 0
   \<and> handle (fst (set_storage (errored_texture :: rat texture) [4, 4] 0 None)) = 0
   \<and> Texture_enable ideal_runtime ext_available counting_driver (empty_world rgb_heap)
        errored_texture = (empty_world rgb_heap, errored_texture, Inr ())"
proof -
  have 1: "handle (errored_texture :: rat texture) < 0"
    by (simp add: errored_texture_def)
  from set_data_clears_error [OF 1] 1 show ?thesis by simp
qed

text \<open>
  Claim C2 as stated fails: on a texture with handle \<open>-1\<close>, \<^verbatim>\<open>set_data\<close> and
  \<^verbatim>\<open>set_storage\<close> both return with the handle at 0 and the new description recorded.
\<close>

theorem set_data_resets_errored_handle:
  "handle (errored_texture :: rat texture) = - 1
   \<and> set_data rgb_heap errored_texture 0 None 0 None None =
       (errored_texture\<lparr>handle := 0, pending_data := Some (Some 0, None, 0, None, None),
                         texture_shape := Some [4, 4, 3]\<rparr> :: rat texture, Inr ())
   \<and> set_storage errored_texture [4, 4] 0 None =
       (errored_texture\<lparr>handle := 0, pending_data := Some (None, None, 0, None, None),
                         texture_shape := Some [4, 4]\<rparr> :: rat texture, Inr ())"
  by (simp add: texture_defs errored_texture_def rgb_heap_def Let_def)

text \<open>
  Claim C3, amended. For an array whose rank is neither \<open>ndim\<close> nor \<open>ndim + 1\<close> for the
  texture's target, \<^verbatim>\<open>set_data\<close> raises AssertionError. A texture whose handle is not
  negative is left exactly as it was; a texture in the error state has had its handle
  reset to 0 and its recorded shape cleared by then, and nothing else changed.
\<close>

theorem set_data_rank_error:
  assumes "length (shape (h ! data)) \<notin>
             {dict_get MAP (target t) 0, dict_get MAP (target t) 0 + 1}"
  shows "set_data h t data offset level format clim =
           (if handle t < 0 then (t\<lparr>handle := 0, texture_shape := None\<rparr>, Inl AssertionError)
            else (t, Inl AssertionError))"
  using assms by (simp add: set_data_def reset_if_error_def Let_def)

theorem set_data_rank_error_witness:
  "length (shape (vector_heap ! 0)) \<notin>
     {dict_get MAP (target (resident_texture :: rat texture)) 0,
      dict_get MAP (target (resident_texture :: rat texture)) 0 + 1}
   \<and> set_data vector_heap (resident_texture :: rat texture) 0 None 0 None None =
       (resident_texture, Inl AssertionError)"
proof -
  have 1: "length (shape (vector_heap ! 0)) \<notin>
     {dict_get MAP (target (resident_texture :: rat texture)) 0,
      dict_get MAP (target (resident_texture :: rat texture)) 0 + 1}"
    by (simp add: vector_heap_def resident_texture_def MAP_def dict_get_def)
  have 2: "\<not> handle (resident_texture :: rat texture) < 0"
    by (simp add: resident_texture_def)
  from set_data_rank_error [OF 1, of None 0 None None] 1 2 show ?thesis by simp
qed

text \<open>
  Claim C3 as stated fails on a texture in the error state: the call with a
  one-dimensional array raises, and the handle and the recorded shape are no longer
  what they were.
\<close>

theorem set_data_rank_error_resets:
  "set_data vector_heap (errored_texture :: rat texture) 0 None 0 None None =
     (errored_texture\<lparr>handle := 0, texture_shape := None\<rparr>, Inl AssertionError)
   \<and> handle (errored_texture\<lparr>handle := 0, texture_shape := None\<rparr> :: rat texture)
       \<noteq> handle (errored_texture :: rat texture)
   \<and> texture_shape (errored_texture\<lparr>handle := 0, texture_shape := None\<rparr> :: rat texture)
       \<noteq> texture_shape (errored_texture :: rat texture)"
  by (simp add: texture_defs errored_texture_def vector_heap_def Let_def)

text \<open>
  Claim C4. For a texture whose handle is negative, activation returns at once: the
  world, and with it the list of driver calls, and the texture are unchanged, and so
  they are after any number \<open>n\<close> of activations in a row.
\<close>

theorem enable_error_sticky:
  assumes "handle t < 0"
  shows "Texture_enable rt ext drv w t = (w, t, Inr ())
         \<and> enable_times rt ext drv n w t = (w, t)"
  using assms by (induction n) (simp_all add: Texture_enable_error)

theorem enable_error_sticky_witness:
  "handle (errored_texture :: rat texture) < 0
   \<and> Texture_enable ideal_runtime ext_available counting_driver (empty_world rgb_heap)
        errored_texture = (empty_world rgb_heap, errored_texture, Inr ())
   \<and> enable_times ideal_runtime ext_available counting_driver 3 (empty_world rgb_heap)
        errored_texture = (empty_world rgb_heap, errored_texture)"
proof -
  have 1: "handle (errored_texture :: rat texture) < 0"
    by (simp add: errored_texture_def)
  from enable_error_sticky [OF 1] 1 show ?thesis by simp
qed

subsection \<open>What activation leaves unchanged\<close>

lemma flush_pending_params_frame:
  "flush_pending_params w t = (w', t') \<Longrightarrow>
     target t' = target t \<and> handle t' = handle t \<and> texture_shape t' = texture_shape t
     \<and> pending_data t' = pending_data t \<and> texture_params t' = texture_params t
     \<and> pending_params t' = [] \<and> heap w' = heap w"
proof (induction w t arbitrary: w' t' rule: flush_pending_params.induct)
  case (1 w t)
  show ?case
  proof (cases "pending_params t = []")
    case True
    with "1.prems" show ?thesis
      by (simp add: flush_pending_params.simps [of w t])
  next
    case False
    obtain param v where pv: "last (pending_params t) = (param, v)"
      by (cases "last (pending_params t)")
    from "1.prems" False pv
    have "flush_pending_params (call w (glTexParameter (target t) param v))
            (t\<lparr>pending_params := butlast (pending_params t)\<rparr>) = (w', t')"
      by (simp add: flush_pending_params.simps [of w t])
    from "1.IH" [OF False pv [symmetric] this] show ?thesis
      by (simp add: call_def)
  qed
qed

lemma process_pending_data_frame:
  "process_pending_data rt ext drv w t pd = (w', t', r) \<Longrightarrow>
     target t' = target t \<and> texture_shape t' = texture_shape t
     \<and> pending_data t' = pending_data t \<and> texture_params t' = texture_params t"
  by (auto simp: process_pending_data_def Let_def GLObject_delete_def RawTexture_create_def
           split: prod.splits option.splits sum.splits if_splits)

lemma enable_update_data_frame:
  "enable_update_data rt ext drv w t = (w', t', r) \<Longrightarrow>
     target t' = target t \<and> texture_shape t' = texture_shape t \<and> pending_data t' = None"
  by (auto simp: enable_update_data_def split: option.splits prod.splits sum.splits if_splits
           dest!: process_pending_data_frame)

lemma Texture_enable_frame:
  assumes "Texture_enable rt ext drv w t = (w', t', r)"
  shows "target t' = target t" and "texture_shape t' = texture_shape t"
    and "0 \<le> handle t \<Longrightarrow> 0 \<le> handle t' \<Longrightarrow> pending_data t' = None"
  using assms
  by (auto simp: Texture_enable_def
           split: if_splits prod.splits sum.splits bool.splits
           dest!: enable_update_data_frame flush_pending_params_frame)

lemma set_storage_noop:
  assumes "0 \<le> handle t" and "texture_shape t = Some ts"
    and "take (dict_get MAP (target t) 0) ts = take (dict_get MAP (target t) 0) shp"
  shows "set_storage t shp 0 None = (t, Inr ())"
  using assms by (simp add: set_storage_def reset_if_error_id)

lemma set_storage_ok:
  assumes "set_storage t shp 0 None = (t1, Inr ())"
  shows "0 \<le> handle t1 \<and> target t1 = target t
         \<and> (\<exists>ts. texture_shape t1 = Some ts
               \<and> take (dict_get MAP (target t) 0) ts = take (dict_get MAP (target t) 0) shp)"
  using assms
  by (auto simp: set_storage_def reset_if_error_def Let_def split: if_splits)

lemma storage_run:
  "handle (fst (snd (Texture_enable ideal_runtime ext_available counting_driver
      (empty_world ([] :: rat list heap)) (storage_texture :: rat texture)))) = 1"
  by (simp add: texture_defs counting_driver_def storage_texture_def Let_def
       flush_pending_params.simps)

text \<open>
  Claim C8, amended. On a texture that is not in the error state, \<^verbatim>\<open>set_storage\<close> with
  level 0, no format and a shape whose leading \<open>ndim\<close> dimensions equal those of the
  recorded shape changes nothing: no pending description is recorded and the recorded
  shape stays. In particular, when a first such call returned and the next activation
  left the texture out of the error state, that activation has consumed the pending
  description and a second call with the same shape records none.
\<close>

theorem set_storage_same_shape_noop:
  assumes "0 \<le> handle t"
  shows "(texture_shape t = Some ts
            \<and> take (dict_get MAP (target t) 0) ts = take (dict_get MAP (target t) 0) shp
          \<longrightarrow> set_storage t shp 0 None = (t, Inr ()))
         \<and> (set_storage t shp 0 None = (t1, Inr ())
              \<and> Texture_enable rt ext drv w t1 = (w', t2, r) \<and> 0 \<le> handle t2
            \<longrightarrow> pending_data t2 = None \<and> set_storage t2 shp 0 None = (t2, Inr ()))"
proof (intro conjI impI)
  assume "texture_shape t = Some ts
            \<and> take (dict_get MAP (target t) 0) ts = take (dict_get MAP (target t) 0) shp"
  with assms show "set_storage t shp 0 None = (t, Inr ())"
    by (simp add: set_storage_noop)
next
  assume a: "set_storage t shp 0 None = (t1, Inr ())
              \<and> Texture_enable rt ext drv w t1 = (w', t2, r) \<and> 0 \<le> handle t2"
  from set_storage_ok [of t shp t1] a
  obtain ts where t1: "0 \<le> handle t1" "target t1 = target t" "texture_shape t1 = Some ts"
      "take (dict_get MAP (target t) 0) ts = take (dict_get MAP (target t) 0) shp"
    by blast
  from a have en: "Texture_enable rt ext drv w t1 = (w', t2, r)" and h2: "0 \<le> handle t2"
    by simp_all
  show "pending_data t2 = None"
    using Texture_enable_frame(3) [OF en t1(1) h2] .
  show "set_storage t2 shp 0 None = (t2, Inr ())"
    using Texture_enable_frame(1,2) [OF en] t1 h2
    by (intro set_storage_noop [of t2 ts]) simp_all
qed

theorem set_storage_same_shape_noop_witness:
  "0 \<le> handle (storage_texture :: rat texture)
   \<and> texture_shape (storage_texture :: rat texture) = Some [256, 256]
   \<and> set_storage (storage_texture :: rat texture) [256, 256] 0 None = (storage_texture, Inr ())
   \<and> 0 \<le> handle (fst (snd (Texture_enable ideal_runtime ext_available counting_driver
              (empty_world ([] :: rat list heap)) (storage_texture :: rat texture))))
   \<and> pending_data (fst (snd (Texture_enable ideal_runtime ext_available counting_driver
              (empty_world ([] :: rat list heap)) (storage_texture :: rat texture)))) = None
   \<and> set_storage (fst (snd (Texture_enable ideal_runtime ext_available counting_driver
              (empty_world ([] :: rat list heap)) (storage_texture :: rat texture))))
         [256, 256] 0 None =
       (fst (snd (Texture_enable ideal_runtime ext_available counting_driver
              (empty_world ([] :: rat list heap)) (storage_texture :: rat texture))), Inr ())"
proof -
  let ?t = "storage_texture :: rat texture"
  let ?run = "Texture_enable ideal_runtime ext_available counting_driver
                (empty_world ([] :: rat list heap)) ?t"
  have 1: "0 \<le> handle ?t" by (simp add: storage_texture_def)
  have 2: "texture_shape ?t = Some [256, 256]" by (simp add: storage_texture_def)
  have 3: "take (dict_get MAP (target ?t) 0) [256, 256] =
           take (dict_get MAP (target ?t) 0) [256, 256 :: int]" by simp
  have 4: "?run = (fst ?run, fst (snd ?run), snd (snd ?run))" by simp
  have 5: "0 \<le> handle (fst (snd ?run))" by (simp add: storage_run)
  from set_storage_same_shape_noop
         [OF 1, of "[256, 256]" "[256, 256]" ?t ideal_runtime ext_available counting_driver
            "empty_world []" "fst ?run" "fst (snd ?run)" "snd (snd ?run)"]
  have a: "set_storage ?t [256, 256] 0 None = (?t, Inr ())"
    and b: "set_storage ?t [256, 256] 0 None = (?t, Inr ()) \<and> ?run = (fst ?run, fst (snd ?run), snd (snd ?run))
              \<and> 0 \<le> handle (fst (snd ?run)) \<longrightarrow>
            pending_data (fst (snd ?run)) = None
            \<and> set_storage (fst (snd ?run)) [256, 256] 0 None = (fst (snd ?run), Inr ())"
    using 2 3 by blast+
  from b a 4 5 have "pending_data (fst (snd ?run)) = None
            \<and> set_storage (fst (snd ?run)) [256, 256] 0 None = (fst (snd ?run), Inr ())"
    by blast
  with 1 2 a 5 show ?thesis by blast
qed

text \<open>
  Claim C8 as stated fails on a texture in the error state: its recorded shape is
  cleared first, so the call with the very shape that was recorded records a new
  pending description.
\<close>

theorem set_storage_errored_records:
  "texture_shape (errored_texture :: rat texture) = Some [4, 4]
   \<and> pending_data (errored_texture :: rat texture) = None
   \<and> pending_data (fst (set_storage (errored_texture :: rat texture) [4, 4] 0 None)) =
       Some (None, None, 0, None, None)
   \<and> fst (set_storage (errored_texture :: rat texture) [4, 4] 0 None) \<noteq> errored_texture"
  by (simp add: texture_defs errored_texture_def Let_def)

subsection \<open>The fast path\<close>

lemma flush_pending_params_calls:
  "flush_pending_params w t = (w', t') \<Longrightarrow>
     \<exists>cs. gl_calls w' = gl_calls w @ cs \<and> \<not> list_ex realloc_call cs"
proof (induction w t arbitrary: w' t' rule: flush_pending_params.induct)
  case (1 w t)
  show ?case
  proof (cases "pending_params t = []")
    case True
    with "1.prems" show ?thesis
      by (simp add: flush_pending_params.simps [of w t])
  next
    case False
    obtain param v where pv: "last (pending_params t) = (param, v)"
      by (cases "last (pending_params t)")
    from "1.prems" False pv
    have "flush_pending_params (call w (glTexParameter (target t) param v))
            (t\<lparr>pending_params := butlast (pending_params t)\<rparr>) = (w', t')"
      by (simp add: flush_pending_params.simps [of w t])
    from "1.IH" [OF False pv [symmetric] this]
    obtain cs where "gl_calls w' = gl_calls w @ glTexParameter (target t) param v # cs"
        "\<not> list_ex realloc_call cs"
      by (auto simp: call_def)
    then show ?thesis
      by (intro exI [of _ "glTexParameter (target t) param v # cs"]) simp
  qed
qed

lemma RawTexture_enable_calls:
  "\<exists>cs. gl_calls (RawTexture_enable w t) = gl_calls w @ cs \<and> \<not> list_ex realloc_call cs"
  by (simp add: RawTexture_enable_def push_enable_def call_def Let_def)

lemma process_update_calls:
  assumes "process_pending_data rt ext drv w t (data, Some off, level, format, clim) = (w', t', r)"
    and "off \<noteq> []"
  shows "t' = t \<and> (\<exists>cs. gl_calls w' = gl_calls w @ cs \<and> \<not> list_ex realloc_call cs
                       \<and> (r = Inr () \<longrightarrow> list_ex (update_call off) cs))"
  using assms
  by (auto simp: process_pending_data_def RawTexture_update_def Let_def call_def
           split: prod.splits option.splits sum.splits if_splits)

lemma new_calls_append: "gl_calls w' = gl_calls w @ cs \<Longrightarrow> new_calls w w' = cs"
  by (simp add: new_calls_def)

lemma enable_update_data_calls:
  assumes "enable_update_data rt ext drv w t = (w', t', r)"
    and "pending_data t = Some (data, Some off, level, format, clim)" and "off \<noteq> []"
  shows "\<exists>cs. gl_calls w' = gl_calls w @ cs \<and> \<not> list_ex realloc_call cs
              \<and> ((\<exists>b. r = Inr b) \<longrightarrow> list_ex (update_call off) cs)"
proof -
  obtain w1 t1 r1 where p:
    "process_pending_data rt ext drv w (t\<lparr>pending_data := None\<rparr>)
       (data, Some off, level, format, clim) = (w1, t1, r1)"
    by (metis prod_cases3)
  from process_update_calls [OF p assms(3)]
  obtain cs where cs: "gl_calls w1 = gl_calls w @ cs" "\<not> list_ex realloc_call cs"
      "r1 = Inr () \<longrightarrow> list_ex (update_call off) cs"
    by blast
  show ?thesis
  proof (cases r1)
    case (Inl e)
    with assms(1,2) p have "w' = w1" "r = Inl e"
      by (simp_all add: enable_update_data_def)
    with cs show ?thesis by auto
  next
    case (Inr u)
    with assms(1,2) p have "gl_calls w' = gl_calls w1 @ [glIsTexture (handle t1)]"
      by (auto simp: enable_update_data_def call_def split: if_splits)
    with cs Inr show ?thesis
      by (intro exI [of _ "cs @ [glIsTexture (handle t1)]"]) simp
  qed
qed

lemma Texture_enable_update_calls:
  assumes "Texture_enable rt ext drv w t = (w', t', r)"
    and "pending_data t = Some (data, Some off, level, format, clim)" and "off \<noteq> []"
  shows "\<exists>cs. gl_calls w' = gl_calls w @ cs \<and> \<not> list_ex realloc_call cs
              \<and> (r = Inr () \<and> 0 \<le> handle t
                    \<and> (target t = GL_TEXTURE_3D \<longrightarrow> ext ''GL_texture_3D'')
                  \<longrightarrow> list_ex (update_call off) cs)"
proof (cases "handle t < 0 \<or> (target t = GL_TEXTURE_3D \<and> \<not> ext ''GL_texture_3D'')")
  case True
  with assms(1) have "gl_calls w' = gl_calls w @ []"
    by (auto simp: Texture_enable_def split: if_splits)
  with True show ?thesis
    by (intro exI [of _ "[]"]) auto
next
  case False
  obtain w1 t1 r1 where u: "enable_update_data rt ext drv w t = (w1, t1, r1)"
    by (metis prod_cases3)
  from enable_update_data_calls [OF u assms(2,3)]
  obtain cs where cs: "gl_calls w1 = gl_calls w @ cs" "\<not> list_ex realloc_call cs"
      "(\<exists>b. r1 = Inr b) \<longrightarrow> list_ex (update_call off) cs"
    by blast
  let ?w2 = "RawTexture_enable (call w1 (glIsTexture (handle t1))) t1"
  have eq: "(w', t', r) =
      (case r1 of
         Inl e \<Rightarrow> (w1, t1, Inl e)
       | Inr False \<Rightarrow> (w1, t1, Inr ())
       | Inr True \<Rightarrow>
           if handle t1 = 0 then (w1, t1, Inr ())
           else if \<not> is_texture drv (gl_calls w1) (handle t1)
           then (call w1 (glIsTexture (handle t1)), t1, Inl RuntimeError)
           else (case flush_pending_params ?w2 t1 of (w2, t2) \<Rightarrow> (w2, t2, Inr ())))"
  proof -
    have nf: "\<not> handle t < 0" "\<not> (target t = GL_TEXTURE_3D \<and> \<not> ext ''GL_texture_3D'')"
      using False by auto
    show ?thesis
      unfolding assms(1) [symmetric] Texture_enable_def u
      by (simp only: nf if_False) (simp split: sum.splits bool.splits)
  qed
  consider (same) "w' = w1" "r = Inr () \<longrightarrow> (\<exists>b. r1 = Inr b)"
    | (invalid) "gl_calls w' = gl_calls w1 @ [glIsTexture (handle t1)]" "r = Inl RuntimeError"
    | (bound) w3 t3 where "flush_pending_params ?w2 t1 = (w3, t3)" "w' = w3" "r1 = Inr True"
    using eq
    by (cases "flush_pending_params ?w2 t1")
       (auto simp: call_def split: sum.splits bool.splits if_splits)
  then show ?thesis
  proof cases
    case same
    with cs show ?thesis by auto
  next
    case invalid
    with cs show ?thesis
      by (intro exI [of _ "cs @ [glIsTexture (handle t1)]"]) simp
  next
    case bound
    have go: "\<exists>b. r1 = Inr b"
      using bound(3) by blast
    from flush_pending_params_calls [OF bound(1)]
    obtain cs3 where "gl_calls w3 = gl_calls ?w2 @ cs3" "\<not> list_ex realloc_call cs3"
      by blast
    moreover from RawTexture_enable_calls [of "call w1 (glIsTexture (handle t1))" t1]
    obtain cs2 where "gl_calls ?w2 = gl_calls w1 @ glIsTexture (handle t1) # cs2"
        "\<not> list_ex realloc_call cs2"
      by (auto simp: call_def)
    ultimately have "gl_calls w' = gl_calls w @ (cs @ glIsTexture (handle t1) # cs2 @ cs3)"
        "\<not> list_ex realloc_call (cs @ glIsTexture (handle t1) # cs2 @ cs3)"
      using cs bound(2) by simp_all
    with cs go show ?thesis
      by (intro exI [of _ "cs @ glIsTexture (handle t1) # cs2 @ cs3"]) simp
  qed
qed

lemma zeros_replicate:
  "n \<le> length xs \<Longrightarrow> map (\<lambda>i. 0) (take n xs) = replicate n (0::int)"
  by (simp add: map_replicate_const min_def)

lemma set_data_fast_path_pending:
  assumes "0 < handle t" and "texture_shape t = Some (shape (h ! data))"
    and "set_data h t data None level format clim = (t', Inr ())"
  shows "t' = t\<lparr>pending_data :=
                  Some (Some data, Some (replicate (dict_get MAP (target t) 0) 0),
                        level, format, clim)\<rparr>"
  using assms
  by (cases t)
     (auto simp: set_data_def reset_if_error_def Let_def zeros_replicate map_replicate_const
           split: if_splits)

lemma replicate_2: "replicate 2 x = [x, x]"
  by (simp add: numeral_2_eq_2)

lemma fast_path_set_data:
  "set_data rgb_heap resident_texture 0 None 0 None None =
     (resident_texture\<lparr>pending_data := Some (Some 0, Some [0, 0], 0, None, None)\<rparr>
        :: rat texture, Inr ())"
  by (simp add: texture_defs resident_texture_def rgb_heap_def Let_def)

lemma fast_path_run:
  "gl_calls (fst (Texture_enable ideal_runtime ext_available counting_driver (empty_world rgb_heap)
     (resident_texture\<lparr>pending_data := Some (Some 0, Some [0, 0], 0, None, None)\<rparr>))) =
     [glBindTexture GL_TEXTURE_2D 1, glIsTexture 1,
      glTexSubImage 2 GL_TEXTURE_2D 0 [0, 0] [4, 4] GL_RGB GL_UNSIGNED_BYTE
        \<lparr>dtype = np_uint 8, byteswapped = False, shape = [4, 4, 3], buf = [1, 2, 3]\<rparr>,
      glIsTexture 1, glIsTexture 1, glEnable GL_TEXTURE_2D, glBindTexture GL_TEXTURE_2D 1]
   \<and> snd (snd (Texture_enable ideal_runtime ext_available counting_driver (empty_world rgb_heap)
     (resident_texture\<lparr>pending_data := Some (Some 0, Some [0, 0], 0, None, None)\<rparr>))) = Inr ()"
  by (simp add: texture_defs counting_driver_def resident_texture_def rgb_heap_def Let_def
       convert_data_uint8_None name_uint8 str_nat_8 flush_pending_params.simps)

text \<open>
  Claim C6, amended. For a call of \<^verbatim>\<open>set_data\<close> with no offset that is accepted (returns
  without raising), on a 2D or 3D texture whose handle is positive and whose recorded
  shape is the shape of the array, the offset recorded in the pending description is
  all zeros, one for each dimension of the target. The next activation then never makes
  a call of the re-upload sequence (delete, create, allocate or upload), whatever its
  outcome; and when it returns without raising (and, for a 3D target, the 3D capability
  is available) it has made the partial update \<^verbatim>\<open>glTexSubImage\<close> with that offset.
\<close>

theorem set_data_fast_path:
  assumes "0 < handle t" and "target t \<in> {GL_TEXTURE_2D, GL_TEXTURE_3D}"
    and "texture_shape t = Some (shape (h ! data))"
    and "set_data h t data None level format clim = (t', Inr ())"
    and "Texture_enable rt ext drv w t' = (w', t'', r)"
  shows "pending_data t' =
           Some (Some data, Some (replicate (dict_get MAP (target t) 0) 0), level, format, clim)
         \<and> prefix (gl_calls w) (gl_calls w')
         \<and> \<not> list_ex realloc_call (new_calls w w')
         \<and> (r = Inr () \<and> (target t = GL_TEXTURE_3D \<longrightarrow> ext ''GL_texture_3D'')
             \<longrightarrow> list_ex (update_call (replicate (dict_get MAP (target t) 0) 0))
                   (new_calls w w'))"
proof -
  let ?off = "replicate (dict_get MAP (target t) 0) (0::int)"
  have t': "t' = t\<lparr>pending_data := Some (Some data, Some ?off, level, format, clim)\<rparr>"
    using set_data_fast_path_pending [OF assms(1,3,4)] .
  have ne: "?off \<noteq> []"
    using assms(2) by (auto simp: MAP_def dict_get_def)
  have pd: "pending_data t' = Some (Some data, Some ?off, level, format, clim)"
    by (simp add: t')
  from Texture_enable_update_calls [OF assms(5) pd ne]
  obtain cs where cs: "gl_calls w' = gl_calls w @ cs" "\<not> list_ex realloc_call cs"
      "r = Inr () \<and> 0 \<le> handle t'
         \<and> (target t' = GL_TEXTURE_3D \<longrightarrow> ext ''GL_texture_3D'')
       \<longrightarrow> list_ex (update_call ?off) cs"
    by blast
  have "new_calls w w' = cs"
    using cs(1) by (rule new_calls_append)
  with cs pd assms(1) show ?thesis
    by (auto simp: t')
qed

theorem set_data_fast_path_witness:
  "0 < handle (resident_texture :: rat texture)
   \<and> texture_shape (resident_texture :: rat texture) = Some (shape (rgb_heap ! 0))
   \<and> set_data rgb_heap resident_texture 0 None 0 None None =
       (resident_texture\<lparr>pending_data := Some (Some 0, Some [0, 0], 0, None, None)\<rparr>
          :: rat texture, Inr ())
   \<and> snd (snd (Texture_enable ideal_runtime ext_available counting_driver (empty_world rgb_heap)
         (resident_texture\<lparr>pending_data := Some (Some 0, Some [0, 0], 0, None, None)\<rparr>)))
       = Inr ()
   \<and> \<not> list_ex realloc_call
         (new_calls (empty_world rgb_heap)
            (fst (Texture_enable ideal_runtime ext_available counting_driver
                    (empty_world rgb_heap)
                    (resident_texture\<lparr>pending_data :=
                       Some (Some 0, Some [0, 0], 0, None, None)\<rparr>))))
   \<and> list_ex (update_call [0, 0])
         (new_calls (empty_world rgb_heap)
            (fst (Texture_enable ideal_runtime ext_available counting_driver
                    (empty_world rgb_heap)
                    (resident_texture\<lparr>pending_data :=
                       Some (Some 0, Some [0, 0], 0, None, None)\<rparr>))))"
proof -
  let ?t = "resident_texture :: rat texture"
  let ?t' = "?t\<lparr>pending_data := Some (Some 0, Some [0, 0], 0, None, None)\<rparr>"
  let ?run = "Texture_enable ideal_runtime ext_available counting_driver (empty_world rgb_heap) ?t'"
  have 1: "0 < handle ?t" by (simp add: resident_texture_def)
  have 2: "target ?t \<in> {GL_TEXTURE_2D, GL_TEXTURE_3D}" by (simp add: resident_texture_def)
  have 3: "texture_shape ?t = Some (shape (rgb_heap ! 0))"
    by (simp add: resident_texture_def rgb_heap_def)
  have 4: "set_data rgb_heap ?t 0 None 0 None None = (?t', Inr ())"
    by (rule fast_path_set_data)
  have 5: "?run = (fst ?run, fst (snd ?run), snd (snd ?run))" by simp
  have 6: "snd (snd ?run) = Inr ()" using fast_path_run by simp
  have 7: "dict_get MAP (target ?t) 0 = 2"
    by (simp add: resident_texture_def MAP_def dict_get_def)
  have 8: "target ?t = GL_TEXTURE_3D \<longrightarrow> ext_available ''GL_texture_3D''"
    by (simp add: ext_available_def)
  from set_data_fast_path [OF 1 2 3 4 5] 1 3 4 6 8 show ?thesis
    by (simp add: 7 replicate_2)
qed

text \<open>
  Claim C6 as stated fails when the activation raises before the update: \<^verbatim>\<open>set_data\<close>
  accepts an array of complex numbers of the recorded shape and records the zero
  offset, and the next activation raises RuntimeError in \<^verbatim>\<open>convert_data\<close> without a
  single driver call. It also fails for a call that \<^verbatim>\<open>set_data\<close> rejects: with a negative
  level the call raises AssertionError after the offset is chosen, and nothing is
  recorded.
\<close>

theorem set_data_fast_path_activation_raises:
  "set_data complex_heap resident_texture 0 None 0 None None =
     (resident_texture\<lparr>pending_data := Some (Some 0, Some [0, 0], 0, None, None)\<rparr>
        :: rat texture, Inr ())
   \<and> Texture_enable ideal_runtime ext_available counting_driver (empty_world complex_heap)
        (resident_texture\<lparr>pending_data := Some (Some 0, Some [0, 0], 0, None, None)\<rparr>) =
       (empty_world complex_heap, resident_texture, Inl RuntimeError)
   \<and> gl_calls (empty_world complex_heap) = []
   \<and> set_data rgb_heap resident_texture 0 None (- 1) None None =
       (resident_texture :: rat texture, Inl AssertionError)"
  by (simp add: texture_defs resident_texture_def complex_heap_def rgb_heap_def Let_def
        convert_data_def prepare_unsupported)

end
